theory Spec2Isabelle
  imports Complex_Main "HOL-Library.Multiset" "HOL-Library.AList" "HOL-Library.Sublist"
begin

section \<open>Python values shared by the modules\<close>

text \<open>
  Exceptions are values. The classes are the ones the handlers of the scanner tell
  apart: \<^verbatim>\<open>socket.timeout\<close> is a subclass of \<^verbatim>\<open>OSError\<close> (which
  \<^verbatim>\<open>socket.error\<close> names), \<^verbatim>\<open>ssl.SSLError\<close> and
  \<^verbatim>\<open>ssl.CertificateError\<close> are caught together with it by \<^verbatim>\<open>get_ssl_info\<close>,
  \<^verbatim>\<open>ValueError\<close> is what \<^verbatim>\<open>int()\<close>, tuple unpacking, a negative timeout and
  \<^verbatim>\<open>ThreadPoolExecutor(max_workers=0)\<close> raise, and \<^verbatim>\<open>OtherException\<close> stands
  for every other subclass of \<^verbatim>\<open>Exception\<close>. Each carries its message,
  the text \<^verbatim>\<open>str(e)\<close> returns.
\<close>

datatype exn =
    OSError string
  | SocketTimeout string
  | SSLError string
  | CertificateError string
  | ValueError string
  | OtherException string

fun str_exn :: "exn \<Rightarrow> string" where
  "str_exn (OSError m) = m"
| "str_exn (SocketTimeout m) = m"
| "str_exn (SSLError m) = m"
| "str_exn (CertificateError m) = m"
| "str_exn (ValueError m) = m"
| "str_exn (OtherException m) = m"

text \<open>\<^verbatim>\<open>except socket.timeout\<close>\<close>

fun is_socket_timeout :: "exn \<Rightarrow> bool" where
  "is_socket_timeout (SocketTimeout m) = True"
| "is_socket_timeout e = False"

text \<open>\<^verbatim>\<open>except (socket.error, OSError)\<close>: \<^verbatim>\<open>OSError\<close> and its subclasses.\<close>

fun is_OSError :: "exn \<Rightarrow> bool" where
  "is_OSError (OSError m) = True"
| "is_OSError (SocketTimeout m) = True"
| "is_OSError (SSLError m) = True"
| "is_OSError (CertificateError m) = True"
| "is_OSError e = False"

text \<open>
  A call either raises or returns: \<open>Inl e\<close> is the exception \<open>e\<close> raised,
  \<open>Inr v\<close> the value returned. A library call that returns nothing has the outcome
  \<open>exn option\<close>, \<open>None\<close> when it returns.
\<close>

type_synonym 'a result = "exn + 'a"

definition and_then :: "'a result \<Rightarrow> ('a \<Rightarrow> 'b result) \<Rightarrow> 'b result" where
  "and_then r f = (case r of Inl e \<Rightarrow> Inl e | Inr v \<Rightarrow> f v)"

definition call :: "exn option \<Rightarrow> unit result" where
  "call outcome = (case outcome of Some e \<Rightarrow> Inl e | None \<Rightarrow> Inr ())"

text \<open>\<^verbatim>\<open>try: body  except Exception as e: handler\<close>\<close>

definition except_Exception :: "'a result \<Rightarrow> (exn \<Rightarrow> 'a result) \<Rightarrow> 'a result" where
  "except_Exception body handler = (case body of Inl e \<Rightarrow> handler e | Inr v \<Rightarrow> Inr v)"

type_synonym host = string
type_synonym port = int

section \<open>Thread counts (scanner\_engine.scan\_ports, threading\_module.execute\_tasks)\<close>

text \<open>
  \<^verbatim>\<open>max_recommended_threads = cpu_count * 2\<close>, steps 9.2 to 9.5 of
  \<^verbatim>\<open>scan_ports\<close>.
\<close>

definition max_recommended_threads :: "int \<Rightarrow> int" where
  "max_recommended_threads cpu_count = cpu_count * 2"

definition exceeds_recommended :: "int \<Rightarrow> int \<Rightarrow> bool" where
  "exceeds_recommended cpu_count thread_count \<longleftrightarrow> thread_count > max_recommended_threads cpu_count"

definition capped_thread_count :: "int \<Rightarrow> int \<Rightarrow> int" where
  "capped_thread_count cpu_count thread_count =
     (if exceeds_recommended cpu_count thread_count then max_recommended_threads cpu_count
      else thread_count)"

definition effective_thread_count :: "int \<Rightarrow> int \<Rightarrow> 'a list \<Rightarrow> int" where
  "effective_thread_count cpu_count thread_count ports =
     min (capped_thread_count cpu_count thread_count) (int (length ports))"

text \<open>
  \<^verbatim>\<open>ThreadingModule.__init__\<close>: \<^verbatim>\<open>cpu_count = os.cpu_count() or 4\<close>, where
  \<^verbatim>\<open>os.cpu_count()\<close> is \<^verbatim>\<open>None\<close> or an integer (and \<^verbatim>\<open>0 or 4\<close> is 4);
  \<^verbatim>\<open>MAX_THREAD_COUNT = min(100, cpu_count * 5)\<close>.
\<close>

definition MAX_THREAD_COUNT :: "int option \<Rightarrow> int" where
  "MAX_THREAD_COUNT os_cpu_count =
     (let cpu_count = (case os_cpu_count of None \<Rightarrow> 4 | Some c \<Rightarrow> if c = 0 then 4 else c)
      in min 100 (cpu_count * 5))"

text \<open>
  \<^verbatim>\<open>execute_tasks\<close>:
  \<^verbatim>\<open>optimal_thread_count = min(thread_count, len(tasks), self.MAX_THREAD_COUNT)\<close>,
  the value given to \<^verbatim>\<open>ThreadPoolExecutor(max_workers=...)\<close>.
\<close>

definition optimal_thread_count :: "int \<Rightarrow> 'a list \<Rightarrow> int \<Rightarrow> int" where
  "optimal_thread_count thread_count tasks max_thread_count =
     min thread_count (min (int (length tasks)) max_thread_count)"

section \<open>The network as the scanner meets it\<close>

text \<open>
  The scanner reaches the outside world through calls of \<^verbatim>\<open>socket\<close> and
  \<^verbatim>\<open>ssl\<close>. Each such call has its outcome supplied by the environment: the value
  it returns or the exception it raises. One record per function of the engine lists the
  calls that function makes, in the order it makes them; the \<open>network\<close> gives such a
  record for every host and port. Bytes received are a \<open>string\<close>, one character per
  byte.
\<close>

type_synonym bytes = string

text \<open>The calls of \<^verbatim>\<open>test_port\<close>.\<close>

record probe_io =
  probe_socket :: "exn option"
  probe_settimeout :: "exn option"
  probe_connect_ex :: "int result"
  probe_close :: "exn option"

text \<open>
  The certificate \<^verbatim>\<open>getpeercert(binary_form=False)\<close> returns: a dictionary, each key
  present or not. \<open>cert_other_keys\<close> says whether it holds keys beyond the seven that
  \<^verbatim>\<open>get_ssl_info\<close> reads. A subject or an issuer is a tuple of relative
  distinguished names, each a tuple of (key, value) pairs.
\<close>

record peer_cert =
  cert_subject :: "(string \<times> string) list list option"
  cert_issuer :: "(string \<times> string) list list option"
  cert_notBefore :: "string option"
  cert_notAfter :: "string option"
  cert_version :: "int option"
  cert_serialNumber :: "string option"
  cert_signatureAlgorithm :: "string option"
  cert_other_keys :: bool

text \<open>
  The calls of \<^verbatim>\<open>get_ssl_info\<close>; \<open>tls_exit\<close> is the closing of the sockets when
  the \<^verbatim>\<open>with\<close> blocks are left.
\<close>

record tls_io =
  tls_create_default_context :: "exn option"
  tls_create_connection :: "exn option"
  tls_wrap_socket :: "exn option"
  tls_getpeercert :: "peer_cert result"
  tls_exit :: "exn option"

text \<open>
  The calls of \<^verbatim>\<open>grab_http_banner\<close>; \<open>http_recv k\<close> is the outcome of the
  \<open>k\<close>-th call of \<^verbatim>\<open>s.recv(4096)\<close>, the empty string when the peer has closed
  the stream.
\<close>

record http_io =
  http_socket :: "exn option"
  http_settimeout :: "exn option"
  http_connect :: "exn option"
  http_create_default_context :: "exn option"
  http_wrap_socket :: "exn option"
  http_close_unwrapped :: "exn option"
  http_send :: "exn option"
  http_recv :: "nat \<Rightarrow> bytes result"
  http_close :: "exn option"

text \<open>The calls of \<^verbatim>\<open>grab_protocol_banner\<close>.\<close>

record banner_io =
  banner_socket :: "exn option"
  banner_settimeout :: "exn option"
  banner_connect :: "exn option"
  banner_settimeout_first :: "exn option"
  banner_recv_first :: "bytes result"
  banner_send :: "exn option"
  banner_settimeout_second :: "exn option"
  banner_recv_second :: "bytes result"
  banner_close :: "exn option"

record network =
  probe :: "host \<Rightarrow> port \<Rightarrow> probe_io"
  services_db :: "port \<rightharpoonup> string"
  tls :: "host \<Rightarrow> port \<Rightarrow> tls_io"
  http :: "host \<Rightarrow> port \<Rightarrow> http_io"
  banner_conn :: "host \<Rightarrow> port \<Rightarrow> banner_io"
  gethostbyname :: "host \<Rightarrow> string result"

text \<open>
  Pure functions of the Python library that the engine applies to received text, taken as
  parameters: \<^verbatim>\<open>bytes.decode('utf-8', errors='ignore')\<close> and the four
  \<^verbatim>\<open>re.search\<close> patterns, each returning the groups of the first match.
\<close>

record pylib =
  decode_ignore :: "bytes \<Rightarrow> string"
  search_version :: "string \<Rightarrow> string option"
  search_ssh :: "string \<Rightarrow> (string \<times> string) option"
  search_esmtp :: "string \<Rightarrow> string option"
  search_server :: "string \<Rightarrow> string option"

section \<open>Port Prober (scanner\_engine.test\_port)\<close>

text \<open>
  \<^verbatim>\<open>s.connect_ex((host, port))\<close>: \<^verbatim>\<open>OverflowError\<close> for a port outside
  0..65535, before anything is sent; otherwise what the network gives.
\<close>

definition connect_ex :: "probe_io \<Rightarrow> port \<Rightarrow> int result" where
  "connect_ex io port =
     (if port < 0 \<or> 65535 < port
      then Inl (OtherException ''connect_ex(): port must be 0-65535.'')
      else probe_connect_ex io)"

text \<open>
  The body of the \<^verbatim>\<open>try\<close>, up to the result code: create the socket, set its
  timeout, \<^verbatim>\<open>connect_ex\<close>, close.
\<close>

definition connect_attempt :: "probe_io \<Rightarrow> port \<Rightarrow> int result" where
  "connect_attempt io port =
     and_then (call (probe_socket io)) (\<lambda>_.
     and_then (call (probe_settimeout io)) (\<lambda>_.
     and_then (connect_ex io port) (\<lambda>result.
     and_then (call (probe_close io)) (\<lambda>_.
     Inr result))))"

definition test_port :: "network \<Rightarrow> host \<Rightarrow> port \<Rightarrow> bool result" where
  "test_port net host port =
     except_Exception
       (and_then (connect_attempt (probe net host port) port) (\<lambda>result. Inr (result = 0)))
       (\<lambda>e. Inr False)"

section \<open>Service Classifier (scanner\_engine.fetch\_service\_info)\<close>

definition SERVICE_MAP :: "port \<rightharpoonup> string" where
  "SERVICE_MAP = map_of
     [(21, ''FTP''), (22, ''SSH''), (23, ''Telnet''), (25, ''SMTP''), (53, ''DNS''),
      (80, ''HTTP''), (110, ''POP3''), (123, ''NTP''), (137, ''NetBIOS''), (138, ''NetBIOS''),
      (139, ''NetBIOS''), (143, ''IMAP''), (389, ''LDAP''), (443, ''HTTPS''), (445, ''SMB''),
      (993, ''IMAPS''), (995, ''POP3S''), (1723, ''PPTP''), (3306, ''MySQL''), (3389, ''RDP''),
      (5900, ''VNC''), (8080, ''HTTP-Proxy'')]"

text \<open>
  \<^verbatim>\<open>socket.getservbyport(port)\<close>: \<^verbatim>\<open>OverflowError\<close> for a port outside
  0..65535, \<^verbatim>\<open>OSError\<close> when the services database has no entry.
\<close>

definition getservbyport :: "network \<Rightarrow> port \<Rightarrow> string result" where
  "getservbyport net port =
     (if port < 0 \<or> 65535 < port
      then Inl (OtherException ''getservbyport: port must be 0-65535.'')
      else case services_db net port of
             Some name \<Rightarrow> Inr name
           | None \<Rightarrow> Inl (OSError ''port/proto not found''))"

text \<open>\<^verbatim>\<open>try: ... except (socket.error, OSError): return "Unknown"\<close>\<close>

definition fetch_service_info :: "network \<Rightarrow> port \<Rightarrow> string result" where
  "fetch_service_info net port =
     (case (case SERVICE_MAP port of
              Some name \<Rightarrow> Inr name
            | None \<Rightarrow> getservbyport net port) of
        Inl e \<Rightarrow> if is_OSError e then Inr ''Unknown'' else Inl e
      | Inr name \<Rightarrow> Inr name)"

section \<open>Text helpers (Python built-ins)\<close>

text \<open>
  A Python \<^verbatim>\<open>str\<close> is a \<open>string\<close>, one character per code point below 256.
  \<^verbatim>\<open>str.isspace\<close> on these code points: tab to carriage return, the four
  separators 28 to 31, space, U+0085 and U+00A0.
\<close>

definition isspace :: "char \<Rightarrow> bool" where
  "isspace c \<longleftrightarrow> (of_char c :: nat) \<in> set [9, 10, 11, 12, 13, 28, 29, 30, 31, 32, 133, 160]"

text \<open>\<^verbatim>\<open>s.strip()\<close>\<close>

definition strip :: "string \<Rightarrow> string" where
  "strip s = rev (dropWhile isspace (rev (dropWhile isspace s)))"

text \<open>\<^verbatim>\<open>sep.join(parts)\<close>\<close>

fun join :: "string \<Rightarrow> string list \<Rightarrow> string" where
  "join sep [] = []"
| "join sep [x] = x"
| "join sep (x # y # ys) = x @ sep @ join sep (y # ys)"

text \<open>\<^verbatim>\<open>s.split(sep)[0]\<close>: the text before the first occurrence of \<open>sep\<close>.\<close>

fun before_first :: "string \<Rightarrow> string \<Rightarrow> string" where
  "before_first sep [] = []"
| "before_first sep (c # cs) = (if prefix sep (c # cs) then [] else c # before_first sep cs)"

text \<open>\<^verbatim>\<open>str(n)\<close> for an integer.\<close>

definition digit :: "nat \<Rightarrow> char" where
  "digit d = ''0123456789'' ! d"

fun str_nat :: "nat \<Rightarrow> string" where
  "str_nat n = (if n < 10 then [digit n] else str_nat (n div 10) @ [digit (n mod 10)])"

declare str_nat.simps [simp del]

definition str_int :: "int \<Rightarrow> string" where
  "str_int i = (if i < 0 then CHR ''-'' # str_nat (nat (- i)) else str_nat (nat i))"

section \<open>Banner/Protocol Inspector\<close>

subsection \<open>scanner\_engine.get\_ssl\_info\<close>

record ssl_info =
  ssl_valid :: bool
  issued_to :: string
  issued_by :: string
  valid_from :: string
  valid_until :: string
  ssl_version :: string
  serial_number :: string
  signature_algorithm :: string
  ssl_error :: "string option"

definition initial_ssl_info :: ssl_info where
  "initial_ssl_info =
     \<lparr>ssl_valid = False, issued_to = ''Unknown'', issued_by = ''Unknown'', valid_from = [],
      valid_until = [], ssl_version = [], serial_number = [], signature_algorithm = [],
      ssl_error = None\<rparr>"

text \<open>\<^verbatim>\<open>if not cert\<close>: the dictionary is empty.\<close>

definition cert_is_empty :: "peer_cert \<Rightarrow> bool" where
  "cert_is_empty cert \<longleftrightarrow>
     cert_subject cert = None \<and> cert_issuer cert = None \<and> cert_notBefore cert = None \<and>
     cert_notAfter cert = None \<and> cert_version cert = None \<and> cert_serialNumber cert = None \<and>
     cert_signatureAlgorithm cert = None \<and> \<not> cert_other_keys cert"

text \<open>
  The values of the listed keys in a subject or issuer, empty ones dropped
  (\<^verbatim>\<open>filter(None, parts)\<close>), joined by \<^verbatim>\<open>" / "\<close>.
\<close>

definition name_parts :: "string list \<Rightarrow> (string \<times> string) list list \<Rightarrow> string" where
  "name_parts keys name =
     join '' / '' (filter (\<lambda>v. v \<noteq> [])
       (map snd (filter (\<lambda>(key, value). key \<in> set keys) (concat name))))"

definition fill_from_cert :: "peer_cert \<Rightarrow> ssl_info \<Rightarrow> ssl_info" where
  "fill_from_cert cert ssl_info0 =
     (let ssl_info1 = ssl_info0\<lparr>ssl_valid := True\<rparr>;
          ssl_info2 = (case cert_subject cert of
                         Some subject \<Rightarrow>
                           if subject \<noteq> []
                           then ssl_info1\<lparr>issued_to :=
                                  name_parts [''commonName'', ''organizationName'',
                                              ''organizationalUnitName''] subject\<rparr>
                           else ssl_info1
                       | None \<Rightarrow> ssl_info1);
          ssl_info3 = (case cert_issuer cert of
                         Some issuer \<Rightarrow>
                           if issuer \<noteq> []
                           then ssl_info2\<lparr>issued_by :=
                                  name_parts [''commonName'', ''organizationName''] issuer\<rparr>
                           else ssl_info2
                       | None \<Rightarrow> ssl_info2);
          ssl_info4 = (case cert_notBefore cert of
                         Some t \<Rightarrow> ssl_info3\<lparr>valid_from := t\<rparr> | None \<Rightarrow> ssl_info3);
          ssl_info5 = (case cert_notAfter cert of
                         Some t \<Rightarrow> ssl_info4\<lparr>valid_until := t\<rparr> | None \<Rightarrow> ssl_info4);
          ssl_info6 = (case cert_version cert of
                         Some v \<Rightarrow> ssl_info5\<lparr>ssl_version := CHR ''v'' # str_int v\<rparr>
                       | None \<Rightarrow> ssl_info5);
          ssl_info7 = (case cert_serialNumber cert of
                         Some n \<Rightarrow> ssl_info6\<lparr>serial_number := n\<rparr> | None \<Rightarrow> ssl_info6)
      in case cert_signatureAlgorithm cert of
           Some a \<Rightarrow> ssl_info7\<lparr>signature_algorithm := a\<rparr> | None \<Rightarrow> ssl_info7)"

text \<open>
  The body of the \<^verbatim>\<open>try\<close>. It updates \<^verbatim>\<open>ssl_info\<close> in place, so an exception
  comes with the dictionary as it stands when raised. An exception raised on leaving the
  \<^verbatim>\<open>with\<close> blocks replaces the outcome of their body.
\<close>

definition ssl_info_of :: "(exn \<times> ssl_info) + ssl_info \<Rightarrow> ssl_info" where
  "ssl_info_of r = (case r of Inl (e, ssl_info) \<Rightarrow> ssl_info | Inr ssl_info \<Rightarrow> ssl_info)"

definition ssl_handshake :: "tls_io \<Rightarrow> ssl_info \<Rightarrow> (exn \<times> ssl_info) + ssl_info" where
  "ssl_handshake io ssl_info =
     (case tls_create_default_context io of
        Some e \<Rightarrow> Inl (e, ssl_info)
      | None \<Rightarrow>
     (case tls_create_connection io of
        Some e \<Rightarrow> Inl (e, ssl_info)
      | None \<Rightarrow>
        (let body = (case tls_wrap_socket io of
                       Some e \<Rightarrow> Inl (e, ssl_info)
                     | None \<Rightarrow>
                    (case tls_getpeercert io of
                       Inl e \<Rightarrow> Inl (e, ssl_info)
                     | Inr cert \<Rightarrow>
                         if cert_is_empty cert then Inr ssl_info
                         else Inr (fill_from_cert cert ssl_info)))
         in case tls_exit io of
              Some e \<Rightarrow> Inl (e, ssl_info_of body)
            | None \<Rightarrow> body)))"

text \<open>\<^verbatim>\<open>except (socket.error, ssl.SSLError, ssl.CertificateError) as e\<close>\<close>

definition get_ssl_info :: "network \<Rightarrow> host \<Rightarrow> port \<Rightarrow> ssl_info result" where
  "get_ssl_info net host port =
     (case ssl_handshake (tls net host port) initial_ssl_info of
        Inl (e, ssl_info) \<Rightarrow>
          if is_OSError e then Inr (ssl_info\<lparr>ssl_error := Some (str_exn e)\<rparr>) else Inl e
      | Inr ssl_info \<Rightarrow> Inr ssl_info)"

subsection \<open>scanner\_engine.grab\_protocol\_banner\<close>

text \<open>\<^verbatim>\<open>data = s.recv(1024); if data: banner = data.decode(...).strip()\<close>\<close>

definition banner_of_data :: "pylib \<Rightarrow> bytes \<Rightarrow> string" where
  "banner_of_data lib data = (if data \<noteq> [] then strip (decode_ignore lib data) else [])"

text \<open>
  The inner \<^verbatim>\<open>try\<close>: a timeout of the first read leads to the CRLF probe, whose
  own failures are swallowed by a bare \<^verbatim>\<open>except\<close>; \<^verbatim>\<open>finally\<close> closes the
  socket, and an exception of \<^verbatim>\<open>close\<close> replaces the outcome.
\<close>

definition read_banner :: "pylib \<Rightarrow> banner_io \<Rightarrow> string result" where
  "read_banner lib io =
     (let first = and_then (call (banner_settimeout_first io)) (\<lambda>_.
                  and_then (banner_recv_first io) (\<lambda>data.
                  Inr (banner_of_data lib data)));
          handled = (case first of
                       Inl e \<Rightarrow>
                         if is_socket_timeout e
                         then (case and_then (call (banner_send io)) (\<lambda>_.
                                    and_then (call (banner_settimeout_second io)) (\<lambda>_.
                                    and_then (banner_recv_second io) (\<lambda>data.
                                    Inr (banner_of_data lib data)))) of
                                 Inl e' \<Rightarrow> Inr []
                               | Inr banner \<Rightarrow> Inr banner)
                         else Inl e
                     | Inr banner \<Rightarrow> Inr banner)
      in case banner_close io of Some e \<Rightarrow> Inl e | None \<Rightarrow> handled)"

text \<open>The body of the outer \<^verbatim>\<open>try\<close>.\<close>

definition banner_attempt :: "pylib \<Rightarrow> banner_io \<Rightarrow> string result" where
  "banner_attempt lib io =
     and_then (call (banner_socket io)) (\<lambda>_.
     and_then (call (banner_settimeout io)) (\<lambda>_.
     and_then (call (banner_connect io)) (\<lambda>_.
     read_banner lib io)))"

text \<open>\<^verbatim>\<open>except Exception: return ""\<close>\<close>

definition grab_protocol_banner :: "pylib \<Rightarrow> network \<Rightarrow> host \<Rightarrow> port \<Rightarrow> string result" where
  "grab_protocol_banner lib net host port =
     except_Exception (banner_attempt lib (banner_conn net host port)) (\<lambda>e. Inr [])"

subsection \<open>scanner\_engine.grab\_http\_banner\<close>

record http_info =
  http_banner :: string
  http_server :: string
  http_version :: string

definition empty_http_info :: http_info where
  "empty_http_info = \<lparr>http_banner = [], http_server = [], http_version = []\<rparr>"

text \<open>
  The receive loop. \<open>k\<close> counts the calls of \<^verbatim>\<open>recv\<close> made so far and
  \<open>response\<close> is what has been accumulated:
  \<^verbatim>\<open>
  while True:
      try:
          chunk = s.recv(4096)
          if not chunk: break
          response += chunk
          if len(response) > 8192: break
      except socket.timeout: break
  \<close>
  Any other exception of \<^verbatim>\<open>recv\<close> leaves the loop and the function's
  \<^verbatim>\<open>try\<close>. Every round that continues has made \<open>response\<close> longer and left
  it at 8192 bytes or fewer, so the loop ends on every stream.
\<close>

function recv_loop :: "(nat \<Rightarrow> bytes result) \<Rightarrow> nat \<Rightarrow> bytes \<Rightarrow> bytes result" where
  "recv_loop recv k response =
     (case recv k of
        Inl e \<Rightarrow> if is_socket_timeout e then Inr response else Inl e
      | Inr chunk \<Rightarrow>
          if chunk = [] then Inr response
          else if length (response @ chunk) > 8192 then Inr (response @ chunk)
          else recv_loop recv (Suc k) (response @ chunk))"
  by pat_completeness auto
termination
  by (relation "measure (\<lambda>(recv, k, response). 8193 - length response)")
    (auto simp: neq_Nil_conv)

declare recv_loop.simps [simp del]

text \<open>
  \<^verbatim>\<open>if response:\<close> decode, keep the text before the first blank line as the banner,
  look for a \<^verbatim>\<open>Server:\<close> header and a dotted version in it.
\<close>

definition parse_http_response :: "pylib \<Rightarrow> bytes \<Rightarrow> http_info" where
  "parse_http_response lib response =
     (let resp_text = decode_ignore lib response;
          http_info = empty_http_info
            \<lparr>http_banner := before_first [CHR 0x0D, CHR 0x0A, CHR 0x0D, CHR 0x0A] resp_text\<rparr>
      in case search_server lib resp_text of
           None \<Rightarrow> http_info
         | Some g \<Rightarrow>
             (let server = strip g; http_info' = http_info\<lparr>http_server := server\<rparr>
              in case search_version lib server of
                   None \<Rightarrow> http_info'
                 | Some v \<Rightarrow> http_info'\<lparr>http_version := v\<rparr>))"

text \<open>From the HEAD request to the parsed response.\<close>

definition http_exchange :: "pylib \<Rightarrow> http_io \<Rightarrow> http_info result" where
  "http_exchange lib io =
     and_then (call (http_send io)) (\<lambda>_.
     and_then (recv_loop (http_recv io) 0 []) (\<lambda>response.
     and_then (call (http_close io)) (\<lambda>_.
     Inr (if response \<noteq> [] then parse_http_response lib response else empty_http_info))))"

text \<open>
  The body of the \<^verbatim>\<open>try\<close>. A failed \<^verbatim>\<open>wrap_socket\<close> closes the socket and
  returns the empty \<^verbatim>\<open>http_info\<close>.
\<close>

definition http_attempt :: "pylib \<Rightarrow> http_io \<Rightarrow> bool \<Rightarrow> http_info result" where
  "http_attempt lib io use_ssl =
     and_then (call (http_socket io)) (\<lambda>_.
     and_then (call (http_settimeout io)) (\<lambda>_.
     and_then (call (http_connect io)) (\<lambda>_.
     if use_ssl
     then and_then (call (http_create_default_context io)) (\<lambda>_.
            case http_wrap_socket io of
              Some e \<Rightarrow> and_then (call (http_close_unwrapped io)) (\<lambda>_. Inr empty_http_info)
            | None \<Rightarrow> http_exchange lib io)
     else http_exchange lib io)))"

text \<open>\<^verbatim>\<open>except Exception: log\<close>, then \<^verbatim>\<open>return http_info\<close>, still empty.\<close>

definition grab_http_banner :: "pylib \<Rightarrow> network \<Rightarrow> host \<Rightarrow> port \<Rightarrow> bool \<Rightarrow> http_info result" where
  "grab_http_banner lib net host port use_ssl =
     except_Exception (http_attempt lib (http net host port) use_ssl) (\<lambda>e. Inr empty_http_info)"

subsection \<open>scanner\_engine.grab\_banner\<close>

record banner_info =
  banner :: string
  version :: string
  server :: string
  ssl_cert :: "ssl_info option"

text \<open>The initial dictionary; \<open>None\<close> is the empty dictionary \<^verbatim>\<open>{}\<close>.\<close>

definition initial_banner_info :: banner_info where
  "initial_banner_info = \<lparr>banner = [], version = [], server = [], ssl_cert = None\<rparr>"

text \<open>
  The first \<^verbatim>\<open>if\<close> of the \<^verbatim>\<open>try\<close>. The dictionary \<^verbatim>\<open>get_ssl_info\<close>
  returns has eight keys at least, so \<^verbatim>\<open>if ssl_info\<close> holds.
\<close>

definition tls_applies :: "string \<Rightarrow> port \<Rightarrow> bool" where
  "tls_applies service port \<longleftrightarrow>
     service \<in> set [''HTTPS'', ''IMAPS'', ''POP3S'', ''SMTPS''] \<or>
     port \<in> set [443, 465, 636, 993, 995]"

definition tls_branch :: "network \<Rightarrow> host \<Rightarrow> port \<Rightarrow> string \<Rightarrow> banner_info \<Rightarrow> banner_info result" where
  "tls_branch net host port service banner_info =
     (if tls_applies service port
      then and_then (get_ssl_info net host port) (\<lambda>ssl_info.
           Inr (banner_info\<lparr>ssl_cert := Some ssl_info\<rparr>))
      else Inr banner_info)"

text \<open>
  The \<^verbatim>\<open>if\<close>/\<^verbatim>\<open>elif\<close> chain that follows. \<^verbatim>\<open>http_info\<close> has three keys,
  so \<^verbatim>\<open>if http_info\<close> holds and \<^verbatim>\<open>update\<close> overwrites banner, server and
  version.
\<close>

definition http_applies :: "string \<Rightarrow> port \<Rightarrow> bool" where
  "http_applies service port \<longleftrightarrow>
     service \<in> set [''HTTP'', ''HTTPS''] \<or> port \<in> set [80, 443, 8080, 8443]"

definition banner_branch :: "pylib \<Rightarrow> network \<Rightarrow> host \<Rightarrow> port \<Rightarrow> string \<Rightarrow> banner_info \<Rightarrow> banner_info result" where
  "banner_branch lib net host port service banner_info =
     (if http_applies service port
      then and_then (grab_http_banner lib net host port (service = ''HTTPS'' \<or> port = 443))
             (\<lambda>http_info.
                Inr (banner_info\<lparr>banner := http_banner http_info,
                                  server := http_server http_info,
                                  version := http_version http_info\<rparr>))
      else if service = ''FTP'' \<or> port = 21
      then and_then (grab_protocol_banner lib net host port) (\<lambda>ftp_banner.
             Inr (if ftp_banner \<noteq> []
                  then (case search_version lib ftp_banner of
                          Some v \<Rightarrow> banner_info\<lparr>banner := ftp_banner, version := v\<rparr>
                        | None \<Rightarrow> banner_info\<lparr>banner := ftp_banner\<rparr>)
                  else banner_info))
      else if service = ''SSH'' \<or> port = 22
      then and_then (grab_protocol_banner lib net host port) (\<lambda>ssh_banner.
             Inr (if ssh_banner \<noteq> []
                  then (case search_ssh lib ssh_banner of
                          Some (g1, g2) \<Rightarrow>
                            banner_info\<lparr>banner := ssh_banner, version := g1 @ '' '' @ g2\<rparr>
                        | None \<Rightarrow> banner_info\<lparr>banner := ssh_banner\<rparr>)
                  else banner_info))
      else if service = ''SMTP'' \<or> port = 25
      then and_then (grab_protocol_banner lib net host port) (\<lambda>smtp_banner.
             Inr (if smtp_banner \<noteq> []
                  then (case search_esmtp lib smtp_banner of
                          Some g \<Rightarrow> banner_info\<lparr>banner := smtp_banner, server := g\<rparr>
                        | None \<Rightarrow> banner_info\<lparr>banner := smtp_banner\<rparr>)
                  else banner_info))
      else if banner banner_info = []
      then and_then (grab_protocol_banner lib net host port) (\<lambda>generic_banner.
             Inr (if generic_banner \<noteq> [] then banner_info\<lparr>banner := generic_banner\<rparr>
                  else banner_info))
      else Inr banner_info)"

text \<open>
  \<^verbatim>\<open>try: ... except Exception: log\<close>, then \<^verbatim>\<open>return banner_info\<close>: an exception
  leaves the dictionary as the branches before it have filled it.
\<close>

definition grab_banner :: "pylib \<Rightarrow> network \<Rightarrow> host \<Rightarrow> port \<Rightarrow> string \<Rightarrow> banner_info result" where
  "grab_banner lib net host port service =
     (case tls_branch net host port service initial_banner_info of
        Inl e \<Rightarrow> Inr initial_banner_info
      | Inr banner_info1 \<Rightarrow>
          (case banner_branch lib net host port service banner_info1 of
             Inl e \<Rightarrow> Inr banner_info1
           | Inr banner_info2 \<Rightarrow> Inr banner_info2))"

text \<open>
  What each part produces on its own: the certificate entry that the TLS branch leaves
  (the empty dictionary when it does not apply or raises), and the banner, version and
  server that the chain of the other branches gives when started on the initial
  dictionary.
\<close>

definition tls_outcome :: "network \<Rightarrow> host \<Rightarrow> port \<Rightarrow> string \<Rightarrow> ssl_info option" where
  "tls_outcome net host port service =
     (case tls_branch net host port service initial_banner_info of
        Inl e \<Rightarrow> None
      | Inr b \<Rightarrow> ssl_cert b)"

definition banner_outcome ::
  "pylib \<Rightarrow> network \<Rightarrow> host \<Rightarrow> port \<Rightarrow> string \<Rightarrow> string \<times> string \<times> string" where
  "banner_outcome lib net host port service =
     (case banner_branch lib net host port service initial_banner_info of
        Inl e \<Rightarrow> ([], [], [])
      | Inr b \<Rightarrow> (banner b, version b, server b))"

section \<open>Scan Coordinator\<close>

subsection \<open>What a scan leaves behind\<close>

text \<open>
  The second argument of the progress callback: the open flag of a port, or the text of
  the thread-count warning.
\<close>

datatype callback_arg = Status bool | Message string

text \<open>
  The trace of a scan: \<open>Probed p\<close> for a call of \<^verbatim>\<open>test_port\<close> on port \<open>p\<close>,
  \<open>Progress p a\<close> for a call \<^verbatim>\<open>progress_callback(p, a)\<close>.
\<close>

datatype event = Probed port | Progress port callback_arg

fun is_probe :: "event \<Rightarrow> bool" where
  "is_probe (Probed p) = True"
| "is_probe (Progress p a) = False"

fun is_progress :: "event \<Rightarrow> bool" where
  "is_progress (Probed p) = False"
| "is_progress (Progress p a) = True"

fun event_port :: "event \<Rightarrow> port" where
  "event_port (Probed p) = p"
| "event_port (Progress p a) = p"

subsection \<open>scanner\_engine.scan\_port\_worker\<close>

text \<open>
  The tuple a worker returns: port, open flag, service name and banner dictionary, the
  last \<open>None\<close> for the empty dictionary of a closed port.
\<close>

type_synonym worker_result = "port \<times> bool \<times> string \<times> banner_info option"

text \<open>
  A worker run gives the events it emits and the tuple it returns or the exception it
  raises. \<open>progress_callback\<close> says whether a callback was passed; the callback is
  one that returns. A callback that may raise is treated in
  \<open>scan_port_worker_with\<close> below.
\<close>

definition scan_port_worker ::
  "pylib \<Rightarrow> network \<Rightarrow> host \<Rightarrow> port \<Rightarrow> bool \<Rightarrow> event list \<times> worker_result result" where
  "scan_port_worker lib net host port progress_callback =
     (case test_port net host port of
        Inl e \<Rightarrow> ([Probed port], Inl e)
      | Inr is_open \<Rightarrow>
     (case (if is_open then fetch_service_info net port else Inr []) of
        Inl e \<Rightarrow> ([Probed port], Inl e)
      | Inr service \<Rightarrow>
     (case (if is_open then and_then (grab_banner lib net host port service) (\<lambda>b. Inr (Some b))
            else Inr None) of
        Inl e \<Rightarrow> ([Probed port], Inl e)
      | Inr banner_info \<Rightarrow>
          (Probed port # (if progress_callback then [Progress port (Status is_open)] else []),
           Inr (port, is_open, service, banner_info)))))"

subsection \<open>threading\_module.execute\_tasks\<close>

text \<open>
  What the pool meets while it runs: whether \<^verbatim>\<open>stop_event.is_set()\<close> holds before
  the \<open>k\<close>-th task is submitted and before the \<open>k\<close>-th future is collected (another
  thread may call \<^verbatim>\<open>stop\<close> at any time), and whether
  \<^verbatim>\<open>future.result(timeout=30)\<close> times out on the \<open>k\<close>-th future.
\<close>

record pool_env =
  stop_at_submit :: "nat \<Rightarrow> bool"
  stop_at_collect :: "nat \<Rightarrow> bool"
  result_timeout :: "nat \<Rightarrow> bool"

text \<open>A task is given by what running it does: its events and its outcome.\<close>

type_synonym task = "event list \<times> worker_result result"

text \<open>\<^verbatim>\<open>for func, args in tasks: if self.stop_event.is_set(): break; submit\<close>\<close>

fun submit_loop :: "pool_env \<Rightarrow> nat \<Rightarrow> 'a list \<Rightarrow> 'a list" where
  "submit_loop env k [] = []"
| "submit_loop env k (t # ts) =
     (if stop_at_submit env k then [] else t # submit_loop env (Suc k) ts)"

text \<open>
  \<^verbatim>\<open>future.result(timeout=30)\<close>: a timeout, or the task's own outcome, its exception
  raised again.
\<close>

definition future_result :: "pool_env \<Rightarrow> nat \<Rightarrow> task \<Rightarrow> worker_result result" where
  "future_result env k future =
     (if result_timeout env k then Inl (OtherException ''TimeoutError'') else snd future)"

text \<open>
  The collecting loop. \<^verbatim>\<open>if result:\<close> holds for every tuple of four; an exception
  is logged and the loop goes on.
\<close>

fun collect_loop :: "pool_env \<Rightarrow> nat \<Rightarrow> task list \<Rightarrow> worker_result list" where
  "collect_loop env k [] = []"
| "collect_loop env k (f # fs) =
     (if stop_at_collect env k then []
      else case future_result env k f of
             Inl e \<Rightarrow> collect_loop env (Suc k) fs
           | Inr r \<Rightarrow> r # collect_loop env (Suc k) fs)"

text \<open>
  \<^verbatim>\<open>ThreadPoolExecutor(max_workers=n)\<close> raises \<^verbatim>\<open>ValueError\<close> for \<open>n \<le> 0\<close>.
  Leaving the \<^verbatim>\<open>with\<close> block waits for every submitted task, so the events of
  all of them have happened when \<^verbatim>\<open>execute_tasks\<close> returns; they are listed in
  the order of submission. A run of the pool is given by the \<^verbatim>\<open>max_workers\<close> it was
  created with, the events of its tasks and the list returned or the exception raised.
\<close>

record pool_run =
  max_workers :: int
  pool_trace :: "event list"
  pool_results :: "worker_result list result"

definition execute_tasks :: "pool_env \<Rightarrow> int \<Rightarrow> task list \<Rightarrow> int \<Rightarrow> pool_run" where
  "execute_tasks env max_thread_count tasks thread_count =
     (let optimal = optimal_thread_count thread_count tasks max_thread_count in
      if optimal \<le> 0
      then \<lparr>max_workers = optimal, pool_trace = [],
            pool_results = Inl (ValueError ''max_workers must be greater than 0'')\<rparr>
      else (let futures = submit_loop env 0 tasks
            in \<lparr>max_workers = optimal, pool_trace = concat (map fst futures),
                pool_results = Inr (collect_loop env 0 futures)\<rparr>))"

subsection \<open>random.shuffle\<close>

text \<open>
  Modelled from the Python standard library:
  \<^verbatim>\<open>
  for i in reversed(range(1, len(x))):
      j = randbelow(i + 1)
      x[i], x[j] = x[j], x[i]
  \<close>
  \<open>draw k\<close> is the \<open>k\<close>-th number the generator produces; \<^verbatim>\<open>randbelow(n)\<close>
  is that number modulo \<open>n\<close>.
\<close>

fun shuffle_from :: "(nat \<Rightarrow> nat) \<Rightarrow> nat \<Rightarrow> nat \<Rightarrow> 'a list \<Rightarrow> 'a list" where
  "shuffle_from draw k 0 x = x"
| "shuffle_from draw k (Suc m) x =
     (let i = Suc m; j = draw k mod (i + 1)
      in shuffle_from draw (Suc k) m (x[i := x ! j, j := x ! i]))"

definition shuffle :: "(nat \<Rightarrow> nat) \<Rightarrow> 'a list \<Rightarrow> 'a list" where
  "shuffle draw x = shuffle_from draw 0 (length x - 1) x"

subsection \<open>scanner\_engine.scan\_ports\<close>

record scanner_engine =
  timeout :: real
  banner_timeout :: real
  ssl_timeout :: real

text \<open>\<^verbatim>\<open>ScannerEngine.__init__\<close>\<close>

definition new_scanner_engine :: scanner_engine where
  "new_scanner_engine = \<lparr>timeout = 1, banner_timeout = 3, ssl_timeout = 5\<rparr>"

text \<open>
  The machine a scan runs on: \<^verbatim>\<open>multiprocessing.cpu_count()\<close>, the
  \<^verbatim>\<open>MAX_THREAD_COUNT\<close> of the threading module, the random generator and the pool's
  environment.
\<close>

record machine =
  cpu_count :: int
  max_thread_count :: int
  draw :: "nat \<Rightarrow> nat"
  pool :: pool_env

text \<open>The entry of an open port in the result: the banner dictionary and the service.\<close>

record port_data = banner_info +
  service :: string

text \<open>\<^verbatim>\<open>banner_info.get(key, default)\<close> for the four keys.\<close>

definition port_data_of :: "string \<Rightarrow> banner_info option \<Rightarrow> port_data" where
  "port_data_of service_name banner_info =
     (case banner_info of
        Some b \<Rightarrow> \<lparr>banner = banner b, version = version b, server = server b,
                   ssl_cert = ssl_cert b, service = service_name\<rparr>
      | None \<Rightarrow> \<lparr>banner = [], version = [], server = [], ssl_cert = None,
                 service = service_name\<rparr>)"

text \<open>
  Step 9.9. The dictionary is a list of entries in insertion order; assigning to a key
  that is present replaces its value in place.
\<close>

fun collect_open :: "worker_result list \<Rightarrow> (port \<times> port_data) list \<Rightarrow> (port \<times> port_data) list" where
  "collect_open [] open_ports = open_ports"
| "collect_open ((port, is_open, service_name, banner_info) # results) open_ports =
     collect_open results
       (if is_open then AList.update port (port_data_of service_name banner_info) open_ports
        else open_ports)"

definition warning_msg :: "int \<Rightarrow> int \<Rightarrow> string" where
  "warning_msg thread_count max_threads =
     ''Requested '' @ str_int thread_count @ '' threads exceeds the recommended maximum of '' @
     str_int max_threads"

text \<open>
  The text passed to the callback in step 9.4, as \<^verbatim>\<open>progress_callback(0, text)\<close>.
\<close>

definition warning_text :: "int \<Rightarrow> int \<Rightarrow> string" where
  "warning_text thread_count max_threads =
     ''WARNING: '' @ warning_msg thread_count max_threads @ ''. Using '' @ str_int max_threads @
     '' threads instead.''"

text \<open>
  A call of \<^verbatim>\<open>scan_ports\<close> leaves the engine, the caller's list of ports (shuffled
  in place), the number of workers its pool was created with, the trace, and the
  dictionary returned or the exception raised.
\<close>

record scan_outcome =
  engine_after :: scanner_engine
  ports_after :: "port list"
  workers :: int
  events :: "event list"
  returned :: "(port \<times> port_data) list result"

definition scan_ports ::
  "pylib \<Rightarrow> network \<Rightarrow> machine \<Rightarrow> scanner_engine \<Rightarrow> host \<Rightarrow> port list \<Rightarrow> int \<Rightarrow> bool \<Rightarrow> scan_outcome" where
  "scan_ports lib net m self host ports thread_count progress_callback =
     (let max_threads = max_recommended_threads (cpu_count m);
          warning = (if exceeds_recommended (cpu_count m) thread_count \<and> progress_callback
                     then [Progress 0 (Message (warning_text thread_count max_threads))]
                     else []);
          effective = effective_thread_count (cpu_count m) thread_count ports;
          shuffled = shuffle (draw m) ports;
          tasks = map (\<lambda>port. scan_port_worker lib net host port progress_callback) shuffled;
          run = execute_tasks (pool m) (max_thread_count m) tasks effective
      in \<lparr>engine_after = self,
          ports_after = shuffled,
          workers = max_workers run,
          events = warning @ pool_trace run,
          returned = and_then (pool_results run) (\<lambda>rs. Inr (collect_open rs []))\<rparr>)"

subsection \<open>A callback that may raise\<close>

text \<open>
  The same three functions for a callback given by what it does: it works on a state of
  its caller (for \<^verbatim>\<open>update_progress\<close>: the dictionaries of the web layer and the
  counter it closes over), and it returns or raises. The calls are made in the pool's
  threads; here they follow one another in the order of submission.
\<close>

type_synonym 's callback = "'s \<Rightarrow> port \<Rightarrow> callback_arg \<Rightarrow> 's \<times> exn option"

text \<open>Steps 8.1 to 8.3 of the worker.\<close>

definition inspect_port :: "pylib \<Rightarrow> network \<Rightarrow> host \<Rightarrow> port \<Rightarrow> worker_result result" where
  "inspect_port lib net host port =
     and_then (test_port net host port) (\<lambda>is_open.
     and_then (if is_open then fetch_service_info net port else Inr []) (\<lambda>service.
     and_then (if is_open then and_then (grab_banner lib net host port service) (\<lambda>b. Inr (Some b))
               else Inr None) (\<lambda>banner_info.
     Inr (port, is_open, service, banner_info))))"

text \<open>
  Step 8.4 on: an exception of the callback leaves the worker, which then returns no
  tuple.
\<close>

definition scan_port_worker_with ::
  "pylib \<Rightarrow> network \<Rightarrow> host \<Rightarrow> port \<Rightarrow> 's callback \<Rightarrow> 's \<Rightarrow> task \<times> 's" where
  "scan_port_worker_with lib net host port progress_callback s =
     (case inspect_port lib net host port of
        Inl e \<Rightarrow> (([Probed port], Inl e), s)
      | Inr (p, is_open, service_name, banner_info) \<Rightarrow>
          (let called = progress_callback s port (Status is_open)
           in (([Probed port, Progress port (Status is_open)],
                (case snd called of
                   Some e \<Rightarrow> Inl e
                 | None \<Rightarrow> Inr (p, is_open, service_name, banner_info))),
               fst called)))"

text \<open>The submitted tasks run, each from the state the one before it has left.\<close>

fun run_jobs :: "('s \<Rightarrow> task \<times> 's) list \<Rightarrow> 's \<Rightarrow> task list \<times> 's" where
  "run_jobs [] s = ([], s)"
| "run_jobs (job # jobs) s =
     (let ran = job s; rest = run_jobs jobs (snd ran) in (fst ran # fst rest, snd rest))"

text \<open>
  \<^verbatim>\<open>execute_tasks\<close> on such tasks: the exception of a task is met in
  \<^verbatim>\<open>future.result\<close>, logged, and the loop goes on.
\<close>

definition execute_tasks_with ::
  "pool_env \<Rightarrow> int \<Rightarrow> ('s \<Rightarrow> task \<times> 's) list \<Rightarrow> int \<Rightarrow> 's \<Rightarrow> pool_run \<times> 's" where
  "execute_tasks_with env thread_limit jobs thread_count s =
     (let optimal = optimal_thread_count thread_count jobs thread_limit in
      if optimal \<le> 0
      then (\<lparr>max_workers = optimal, pool_trace = [],
             pool_results = Inl (ValueError ''max_workers must be greater than 0'')\<rparr>, s)
      else (let ran = run_jobs (submit_loop env 0 jobs) s; futures = fst ran
            in (\<lparr>max_workers = optimal, pool_trace = concat (map fst futures),
                 pool_results = Inr (collect_loop env 0 futures)\<rparr>, snd ran)))"

text \<open>
  \<^verbatim>\<open>scan_ports\<close> with such a callback leaves the caller's list of ports, the trace,
  the dictionary returned or the exception raised, and the callback's state. The warning
  of step 9.4 is passed to the callback in the calling thread, before the list is
  shuffled: an exception of that call leaves \<^verbatim>\<open>scan_ports\<close>.
\<close>

record 's scan_run =
  ports_then :: "port list"
  trace_then :: "event list"
  returned_then :: "(port \<times> port_data) list result"
  state_then :: 's

definition scan_ports_with ::
  "pylib \<Rightarrow> network \<Rightarrow> machine \<Rightarrow> scanner_engine \<Rightarrow> host \<Rightarrow> port list \<Rightarrow> int \<Rightarrow> 's callback \<Rightarrow> 's \<Rightarrow>
   's scan_run" where
  "scan_ports_with lib net m self host ports thread_count progress_callback s =
     (let max_threads = max_recommended_threads (cpu_count m);
          warn = exceeds_recommended (cpu_count m) thread_count;
          warning_arg = Message (warning_text thread_count max_threads);
          warned = (if warn then progress_callback s 0 warning_arg else (s, None));
          warning = (if warn then [Progress 0 warning_arg] else [])
      in case snd warned of
           Some e \<Rightarrow>
             \<lparr>ports_then = ports, trace_then = warning, returned_then = Inl e,
              state_then = fst warned\<rparr>
         | None \<Rightarrow>
             (let effective = effective_thread_count (cpu_count m) thread_count ports;
                  shuffled = shuffle (draw m) ports;
                  jobs = map (\<lambda>port. scan_port_worker_with lib net host port progress_callback)
                           shuffled;
                  ran = execute_tasks_with (pool m) (max_thread_count m) jobs effective
                          (fst warned)
              in \<lparr>ports_then = shuffled,
                  trace_then = warning @ pool_trace (fst ran),
                  returned_then = and_then (pool_results (fst ran))
                                    (\<lambda>rs. Inr (collect_open rs [])),
                  state_then = snd ran\<rparr>))"

section \<open>Example environments\<close>

text \<open>
  A host on which ports 80, 443 and 993 accept connections and every other port refuses
  (\<^verbatim>\<open>connect_ex\<close> returns 111). A HEAD request is answered by a status line, on port
  8080 by 4096 bytes on every read; every TLS handshake fails; no service sends a banner.
  The services database is empty.
\<close>

definition open_probe :: probe_io where
  "open_probe = \<lparr>probe_socket = None, probe_settimeout = None, probe_connect_ex = Inr 0,
                 probe_close = None\<rparr>"

definition refused_probe :: probe_io where
  "refused_probe = \<lparr>probe_socket = None, probe_settimeout = None, probe_connect_ex = Inr 111,
                    probe_close = None\<rparr>"


definition failed_handshake :: tls_io where
  "failed_handshake =
     \<lparr>tls_create_default_context = None, tls_create_connection = None,
      tls_wrap_socket = Some (SSLError ''[SSL: WRONG_VERSION_NUMBER] wrong version number''),
      tls_getpeercert = Inl (OSError []), tls_exit = None\<rparr>"

definition endless_http :: http_io where
  "endless_http =
     \<lparr>http_socket = None, http_settimeout = None, http_connect = None,
      http_create_default_context = None, http_wrap_socket = None,
      http_close_unwrapped = None, http_send = None,
      http_recv = (\<lambda>k. Inr (replicate 4096 CHR ''a'')), http_close = None\<rparr>"

definition brief_http :: http_io where
  "brief_http =
     \<lparr>http_socket = None, http_settimeout = None, http_connect = None,
      http_create_default_context = None, http_wrap_socket = None,
      http_close_unwrapped = None, http_send = None,
      http_recv = (\<lambda>k. if k = 0 then Inr ''HTTP/1.1 200 OK'' else Inr []), http_close = None\<rparr>"

definition silent_banner :: banner_io where
  "silent_banner =
     \<lparr>banner_socket = None, banner_settimeout = None, banner_connect = None,
      banner_settimeout_first = None, banner_recv_first = Inl (SocketTimeout ''timed out''),
      banner_send = None, banner_settimeout_second = None,
      banner_recv_second = Inl (SocketTimeout ''timed out''), banner_close = None\<rparr>"

definition example_net :: network where
  "example_net =
     \<lparr>probe = (\<lambda>host port. if port = 80 \<or> port = 443 \<or> port = 993 then open_probe
                            else refused_probe),
      services_db = Map.empty,
      tls = (\<lambda>host port. failed_handshake),
      http = (\<lambda>host port. if port = 8080 then endless_http else brief_http),
      banner_conn = (\<lambda>host port. silent_banner),
      gethostbyname = (\<lambda>host. if host = ''scanme.example'' then Inr ''192.0.2.7''
                               else Inl (OSError ''[Errno -2] Name or service not known''))\<rparr>"


definition example_lib :: pylib where
  "example_lib =
     \<lparr>decode_ignore = (\<lambda>data. data), search_version = (\<lambda>s. None), search_ssh = (\<lambda>s. None),
      search_esmtp = (\<lambda>s. None), search_server = (\<lambda>s. None)\<rparr>"

text \<open>A machine with one CPU, a generator that always draws 0, and no stop or timeout.\<close>

definition calm_pool :: pool_env where
  "calm_pool = \<lparr>stop_at_submit = (\<lambda>k. False), stop_at_collect = (\<lambda>k. False),
                 result_timeout = (\<lambda>k. False)\<rparr>"

definition example_machine :: machine where
  "example_machine = \<lparr>cpu_count = 1, max_thread_count = MAX_THREAD_COUNT (Some 1),
                       draw = (\<lambda>k. 0), pool = calm_pool\<rparr>"

section \<open>Port specifications\<close>

subsection \<open>Python built-ins on strings\<close>

text \<open>\<^verbatim>\<open>s.split(sep)\<close> for a separator of one character: never the empty list.\<close>

fun split_on :: "char \<Rightarrow> string \<Rightarrow> string list" where
  "split_on sep [] = [[]]"
| "split_on sep (c # cs) =
     (if c = sep then [] # split_on sep cs
      else case split_on sep cs of
             [] \<Rightarrow> [[c]]
           | part # parts \<Rightarrow> (c # part) # parts)"

definition isdigit :: "char \<Rightarrow> bool" where
  "isdigit c \<longleftrightarrow> 48 \<le> (of_char c :: int) \<and> (of_char c :: int) \<le> 57"

definition digit_value :: "char \<Rightarrow> int" where
  "digit_value c = of_char c - 48"

text \<open>
  The digits of an integer literal after its first digit: digits, each optionally
  preceded by one underscore.
\<close>

fun more_digits :: "int \<Rightarrow> string \<Rightarrow> int option" where
  "more_digits acc [] = Some acc"
| "more_digits acc [c] = (if isdigit c then Some (acc * 10 + digit_value c) else None)"
| "more_digits acc (c # d # cs) =
     (if isdigit c then more_digits (acc * 10 + digit_value c) (d # cs)
      else if c = CHR ''_'' \<and> isdigit d then more_digits (acc * 10 + digit_value d) cs
      else None)"

definition digits :: "string \<Rightarrow> int option" where
  "digits s = (case s of
                 [] \<Rightarrow> None
               | c # cs \<Rightarrow> if isdigit c then more_digits (digit_value c) cs else None)"

text \<open>
  \<^verbatim>\<open>repr(s)\<close> of a string: double quotes when the text has a single quote and no
  double quote, single quotes otherwise; the quote in use and the backslash are escaped,
  tab, newline and carriage return are written \<^verbatim>\<open>\t\<close>, \<^verbatim>\<open>\n\<close>, \<^verbatim>\<open>\r\<close>, and
  every other code point that is not printable (below 32, 127 to 160, and 173) as
  \<^verbatim>\<open>\xhh\<close>.
\<close>

definition hex_digit :: "nat \<Rightarrow> char" where
  "hex_digit d = ''0123456789abcdef'' ! d"

definition printable :: "char \<Rightarrow> bool" where
  "printable c \<longleftrightarrow>
     (32 \<le> (of_char c :: nat) \<and> (of_char c :: nat) < 127) \<or>
     (161 \<le> (of_char c :: nat) \<and> (of_char c :: nat) \<noteq> 173)"

definition repr_char :: "char \<Rightarrow> char \<Rightarrow> string" where
  "repr_char quote c =
     (if c = quote \<or> c = CHR 0x5C then [CHR 0x5C, c]
      else if c = CHR 0x09 then [CHR 0x5C, CHR ''t'']
      else if c = CHR 0x0A then [CHR 0x5C, CHR ''n'']
      else if c = CHR 0x0D then [CHR 0x5C, CHR ''r'']
      else if \<not> printable c
      then [CHR 0x5C, CHR ''x'', hex_digit (of_char c div 16), hex_digit (of_char c mod 16)]
      else [c])"

definition repr :: "string \<Rightarrow> string" where
  "repr s =
     (let quote = (if CHR 0x27 \<in> set s \<and> CHR 0x22 \<notin> set s then CHR 0x22 else CHR 0x27)
      in quote # concat (map (repr_char quote) s) @ [quote])"

text \<open>
  The error of \<^verbatim>\<open>int(s)\<close>; its message holds the first 200 characters of
  \<^verbatim>\<open>repr(s)\<close>.
\<close>

definition invalid_literal :: "string \<Rightarrow> exn" where
  "invalid_literal s =
     ValueError (''invalid literal for int() with base 10: '' @ take 200 (repr s))"

text \<open>
  The whitespace that \<^verbatim>\<open>int\<close> drops around a literal: tab to carriage return,
  space, U+0085 and U+00A0, but not the separators 28 to 31 that \<^verbatim>\<open>str.strip\<close>
  drops too.
\<close>

definition int_space :: "char \<Rightarrow> bool" where
  "int_space c \<longleftrightarrow> (of_char c :: nat) \<in> set [9, 10, 11, 12, 13, 32, 133, 160]"

text \<open>
  \<^verbatim>\<open>int(s)\<close> for a string: surrounding whitespace is dropped, then an optional sign and
  the digits; anything else raises \<^verbatim>\<open>ValueError\<close>. (The limit that recent
  interpreters put on the number of digits is left out.)
\<close>

definition py_int :: "string \<Rightarrow> int result" where
  "py_int s =
     (case rev (dropWhile int_space (rev (dropWhile int_space s))) of
        [] \<Rightarrow> Inl (invalid_literal s)
      | c # cs \<Rightarrow>
          if c = CHR ''-''
          then (case digits cs of Some n \<Rightarrow> Inr (- n) | None \<Rightarrow> Inl (invalid_literal s))
          else if c = CHR ''+''
          then (case digits cs of Some n \<Rightarrow> Inr n | None \<Rightarrow> Inl (invalid_literal s))
          else (case digits (c # cs) of Some n \<Rightarrow> Inr n | None \<Rightarrow> Inl (invalid_literal s)))"

text \<open>
  \<^verbatim>\<open>start, end = map(int, parts)\<close>: the items are converted one by one as the
  unpacking asks for them, a third one too before it is found to be one too many.
\<close>

definition unpack_two_ints :: "string list \<Rightarrow> (int \<times> int) result" where
  "unpack_two_ints parts =
     (case parts of
        [] \<Rightarrow> Inl (ValueError ''not enough values to unpack (expected 2, got 0)'')
      | [a] \<Rightarrow> and_then (py_int a) (\<lambda>_.
                 Inl (ValueError ''not enough values to unpack (expected 2, got 1)''))
      | a # b # rest \<Rightarrow>
          and_then (py_int a) (\<lambda>start.
          and_then (py_int b) (\<lambda>end.
          case rest of
            [] \<Rightarrow> Inr (start, end)
          | c # _ \<Rightarrow> and_then (py_int c) (\<lambda>_.
                       Inl (ValueError ''too many values to unpack (expected 2)'')))))"

subsection \<open>flask\_web\_interface.parse\_port\_range\<close>

text \<open>The initial value of the module's list \<^verbatim>\<open>DEFAULT_PORTS\<close>.\<close>

definition DEFAULT_PORTS :: "port list" where
  "DEFAULT_PORTS = [21, 22, 23, 25, 53, 80, 110, 123, 135, 139, 143, 389, 443, 445, 993, 995,
                    1723, 3306, 3389, 5900, 8080]"

text \<open>
  The loop over the sections; \<^verbatim>\<open>range(start, end + 1)\<close> is \<open>[start..end]\<close>, empty
  when \<open>start > end\<close>.
\<close>

fun parse_sections :: "string list \<Rightarrow> port list \<Rightarrow> port list result" where
  "parse_sections [] ports = Inr ports"
| "parse_sections (section # sections) ports =
     (if CHR ''-'' \<in> set section
      then and_then (unpack_two_ints (split_on CHR ''-'' section)) (\<lambda>(start, end).
             parse_sections sections (ports @ [start..end]))
      else and_then (py_int section) (\<lambda>p. parse_sections sections (ports @ [p])))"

text \<open>
  \<open>default_ports\<close> is the list that the module's \<^verbatim>\<open>DEFAULT_PORTS\<close> holds when the
  function is called: for an empty string that very list is returned.
  \<^verbatim>\<open>sorted(list(set(ports)))\<close> is \<open>sort (remdups ports)\<close>.
\<close>

definition parse_port_range :: "port list \<Rightarrow> string \<Rightarrow> port list result" where
  "parse_port_range default_ports port_range =
     (if port_range = [] then Inr default_ports
      else and_then (parse_sections (split_on CHR '','' port_range) []) (\<lambda>ports.
             Inr (sort (remdups ports))))"

subsection \<open>scanner\_engine.validate\_port\_range\<close>

text \<open>
  \<^verbatim>\<open>except ValueError as e\<close>: a failed conversion is raised again under another
  message, any other \<^verbatim>\<open>ValueError\<close> as it is. \<open>contains sub s\<close> is
  \<^verbatim>\<open>sub in s\<close>.
\<close>

fun contains :: "string \<Rightarrow> string \<Rightarrow> bool" where
  "contains sub [] \<longleftrightarrow> sub = []"
| "contains sub (c # cs) \<longleftrightarrow> prefix sub (c # cs) \<or> contains sub cs"

definition reraise :: "string \<Rightarrow> exn \<Rightarrow> exn" where
  "reraise part e =
     (if contains ''invalid literal for int()'' (str_exn e)
      then ValueError (''Invalid port number format: '' @ part)
      else e)"

text \<open>The body of the \<^verbatim>\<open>try\<close> for one part: the ports it adds to the set.\<close>

definition validate_part :: "string \<Rightarrow> port list result" where
  "validate_part part =
     (if CHR ''-'' \<in> set part
      then and_then (unpack_two_ints (split_on CHR ''-'' part)) (\<lambda>(start, end).
             if start < 1 \<or> end > 65535
             then Inl (ValueError (''Ports must be between 1 and 65535: '' @ part))
             else if start > end
             then Inl (ValueError (''Invalid range (start > end): '' @ part))
             else Inr [start..end])
      else and_then (py_int part) (\<lambda>p.
             if p < 1 \<or> p > 65535
             then Inl (ValueError (''Port must be between 1 and 65535: '' @ str_int p))
             else Inr [p]))"

fun validate_parts :: "string list \<Rightarrow> port list \<Rightarrow> port list result" where
  "validate_parts [] valid_ports = Inr valid_ports"
| "validate_parts (part # parts) valid_ports =
     (case validate_part (strip part) of
        Inl e \<Rightarrow> Inl (reraise (strip part) e)
      | Inr ports \<Rightarrow> validate_parts parts (valid_ports @ ports))"

definition validate_port_range :: "string \<Rightarrow> port list result" where
  "validate_port_range port_range =
     (if port_range = [] then Inl (ValueError ''Port range cannot be empty'')
      else and_then (validate_parts (split_on CHR '','' port_range) []) (\<lambda>valid_ports.
             Inr (sort (remdups valid_ports))))"

section \<open>Scan Session Registry (flask\_web\_interface)\<close>

text \<open>
  An entry of a scan's log (its timestamp is left out) and the state kept for a scan in
  \<^verbatim>\<open>active_scans\<close>. Times are readings of the clock, given to the functions that
  read it.
\<close>

record log_entry =
  message :: string
  level :: string

record scan_state =
  status :: string
  progress :: int
  start_time :: nat
  logs :: "log_entry list"
  results :: "(port \<times> port_data) list"
  end_time :: "nat option"

text \<open>
  The module's globals: the two dictionaries and the engine that all scans share.
\<close>

record registry =
  active_scans :: "string \<rightharpoonup> scan_state"
  scan_results :: "string \<rightharpoonup> (port \<times> port_data) list"
  engine :: scanner_engine

definition initial_registry :: registry where
  "initial_registry =
     \<lparr>active_scans = Map.empty, scan_results = Map.empty, engine = new_scanner_engine\<rparr>"

definition add_log :: "registry \<Rightarrow> string \<Rightarrow> string \<Rightarrow> string \<Rightarrow> registry" where
  "add_log reg scan_id text lvl =
     (case active_scans reg scan_id of
        None \<Rightarrow> reg
      | Some st \<Rightarrow>
          reg\<lparr>active_scans := (active_scans reg)
                (scan_id \<mapsto> st\<lparr>logs := logs st @ [\<lparr>message = text, level = lvl\<rparr>]\<rparr>)\<rparr>)"

definition complete_scan :: "registry \<Rightarrow> string \<Rightarrow> string \<Rightarrow> nat \<Rightarrow> registry" where
  "complete_scan reg scan_id new_status now =
     (case active_scans reg scan_id of
        None \<Rightarrow> reg
      | Some st \<Rightarrow>
          reg\<lparr>active_scans := (active_scans reg)
                (scan_id \<mapsto> st\<lparr>status := new_status, end_time := Some now\<rparr>),
              scan_results := (scan_results reg)(scan_id \<mapsto> results st)\<rparr>)"

text \<open>\<^verbatim>\<open>POST /api/scan/<scan_id>/stop\<close>\<close>

datatype stop_response = Not_Found | Stopped

definition api_stop_scan :: "registry \<Rightarrow> string \<Rightarrow> nat \<Rightarrow> registry \<times> stop_response" where
  "api_stop_scan reg scan_id now =
     (if active_scans reg scan_id = None then (reg, Not_Found)
      else (complete_scan reg scan_id ''stopped'' now, Stopped))"

subsection \<open>The percentage of \<^verbatim>\<open>update_progress\<close>\<close>

text \<open>
  \<^verbatim>\<open>int((completed_ports / total_ports) * 100)\<close> is computed in double precision:
  the quotient of the two integers is rounded to the nearest double, ties to even, so is
  its product with 100, and \<^verbatim>\<open>int\<close> cuts off the fraction. A positive double is
  given here by a mantissa \<open>m\<close> and an exponent \<open>e\<close>, for the value \<open>m * 2 ^ e\<close>; the
  mantissa of a rounded value is at most \<open>2 ^ 53\<close>. The range of the exponent is not
  modelled: the counts of a scan are far from it.
\<close>

fun bit_length :: "nat \<Rightarrow> nat" where
  "bit_length n = (if n = 0 then 0 else Suc (bit_length (n div 2)))"

declare bit_length.simps [simp del]

text \<open>The integer nearest to \<open>a / b\<close>, the even one of two that are equally near.\<close>

definition round_half_even :: "nat \<Rightarrow> nat \<Rightarrow> nat" where
  "round_half_even a b =
     (let q = a div b; r = a mod b
      in if b < 2 * r \<or> (2 * r = b \<and> q mod 2 = 1) then q + 1 else q)"

text \<open>Numerator and denominator of \<open>a / (b * 2 ^ e)\<close>.\<close>

definition scaled :: "nat \<Rightarrow> nat \<Rightarrow> int \<Rightarrow> nat \<times> nat" where
  "scaled a b e = (if 0 \<le> e then (a, b * 2 ^ nat e) else (a * 2 ^ nat (- e), b))"

text \<open>
  The double nearest to \<open>a / b\<close>: the exponent is chosen so that the quotient, divided
  by \<open>2 ^ e\<close>, lies between \<open>2 ^ 52\<close> and \<open>2 ^ 53\<close>, and is then rounded to an integer.
\<close>

definition nearest_double :: "nat \<Rightarrow> nat \<Rightarrow> nat \<times> int" where
  "nearest_double a b =
     (if a = 0 then (0, 0)
      else (let e0 = int (bit_length a) - int (bit_length b) - 53;
                e = (if 2 ^ 53 \<le> fst (scaled a b e0) div snd (scaled a b e0)
                     then e0 + 1 else e0)
            in (round_half_even (fst (scaled a b e)) (snd (scaled a b e)), e)))"

definition times_100 :: "nat \<times> int \<Rightarrow> nat \<times> int" where
  "times_100 x =
     (if 0 \<le> snd x then nearest_double (100 * fst x * 2 ^ nat (snd x)) 1
      else nearest_double (100 * fst x) (2 ^ nat (- snd x)))"

definition int_of_float :: "nat \<times> int \<Rightarrow> int" where
  "int_of_float x =
     (if 0 \<le> snd x then int (fst x * 2 ^ nat (snd x))
      else int (fst x div 2 ^ nat (- snd x)))"

definition percentage :: "nat \<Rightarrow> nat \<Rightarrow> int" where
  "percentage completed_ports total_ports =
     int_of_float (times_100 (nearest_double completed_ports total_ports))"

subsection \<open>flask\_web\_interface.scan\_worker\<close>

text \<open>
  The callback \<^verbatim>\<open>update_progress\<close> of \<^verbatim>\<open>scan_worker\<close>, on the registry and the
  counter \<^verbatim>\<open>completed_ports\<close>. \<^verbatim>\<open>if status\<close> holds for a true flag and for a
  non-empty text. What the callback has done when it raises stays done: the counter is
  incremented before the division, the percentage stored before the service is looked
  up.
\<close>

fun truthy :: "callback_arg \<Rightarrow> bool" where
  "truthy (Status b) = b"
| "truthy (Message text) = (text \<noteq> [])"

definition update_progress ::
  "network \<Rightarrow> string \<Rightarrow> nat \<Rightarrow> (registry \<times> nat) callback" where
  "update_progress net scan_id total_ports state port_number arg =
     (let reg = fst state; completed_ports = snd state + 1 in
      if total_ports = 0
      then ((reg, completed_ports), Some (OtherException ''division by zero''))
      else case active_scans reg scan_id of
             None \<Rightarrow> ((reg, completed_ports), Some (OtherException (repr scan_id)))
           | Some st \<Rightarrow>
               (let reg' = reg\<lparr>active_scans := (active_scans reg)
                             (scan_id \<mapsto> st\<lparr>progress :=
                                percentage completed_ports total_ports\<rparr>)\<rparr>
                in if truthy arg
                   then (case fetch_service_info net port_number of
                           Inl e \<Rightarrow> ((reg', completed_ports), Some e)
                         | Inr service_name \<Rightarrow>
                             ((add_log reg' scan_id
                                 (''Port '' @ str_int port_number @ '' is open: '' @
                                  service_name)
                                 ''success'', completed_ports), None))
                   else ((reg', completed_ports), None)))"

text \<open>
  While the scan runs, request handlers in other threads work on the same dictionaries:
  \<open>others k\<close> is what they do to the registry after \<open>k\<close> progress calls have been
  made. The callback as the scan meets it works on the registry, the counter and the
  number of calls made so far.
\<close>

definition progress_call ::
  "network \<Rightarrow> string \<Rightarrow> nat \<Rightarrow> (nat \<Rightarrow> registry \<Rightarrow> registry) \<Rightarrow> ((registry \<times> nat) \<times> nat) callback" where
  "progress_call net scan_id total_ports others s port_number arg =
     (let k = snd s;
          called = update_progress net scan_id total_ports
                     (others k (fst (fst s)), snd (fst s)) port_number arg
      in ((fst called, Suc k), snd called))"

text \<open>Steps 11.7 to 11.9: store the results, log, mark the scan completed.\<close>

definition finish_scan ::
  "registry \<Rightarrow> string \<Rightarrow> (port \<times> port_data) list \<Rightarrow> nat \<Rightarrow> registry result" where
  "finish_scan reg scan_id found now =
     (case active_scans reg scan_id of
        None \<Rightarrow> Inl (OtherException ''KeyError'')
      | Some st \<Rightarrow>
          (let reg1 = reg\<lparr>active_scans := (active_scans reg)(scan_id \<mapsto> st\<lparr>results := found\<rparr>)\<rparr>;
               reg2 = (if found \<noteq> []
                       then add_log reg1 scan_id
                              (''Scan completed. Found '' @ str_nat (length found) @
                               '' open ports.'') ''info''
                       else add_log reg1 scan_id ''Scan completed. No open ports found.''
                              ''warning'')
           in Inr (complete_scan reg2 scan_id ''completed'' now)))"

text \<open>Step 11.10: \<^verbatim>\<open>except Exception as e\<close>.\<close>

definition fail_scan :: "registry \<Rightarrow> string \<Rightarrow> exn \<Rightarrow> nat \<Rightarrow> registry" where
  "fail_scan reg scan_id e now =
     complete_scan (add_log reg scan_id (''Error during scan: '' @ str_exn e) ''error'')
       scan_id ''failed'' now"

text \<open>
  What a run of \<^verbatim>\<open>scan_worker\<close> leaves: the registry as it is when the engine's
  scan returns or raises (when the name is not resolved: as it is after step 11.1), the
  registry at the end, the trace of the engine's scan and the list of ports that was
  passed in.
\<close>

record worker_outcome =
  registry_at_return :: registry
  registry_after :: registry
  scan_trace :: "event list"
  ports_left :: "port list"

text \<open>
  \<^verbatim>\<open>scan_worker(scan_id, target, ports, thread_count, timeout)\<close>, started at time
  \<open>t0\<close> and ending at time \<open>t1\<close>.
\<close>

definition scan_worker ::
  "pylib \<Rightarrow> network \<Rightarrow> machine \<Rightarrow> (nat \<Rightarrow> registry \<Rightarrow> registry) \<Rightarrow> registry \<Rightarrow> string \<Rightarrow> host \<Rightarrow>
   port list \<Rightarrow> int \<Rightarrow> real \<Rightarrow> nat \<Rightarrow> nat \<Rightarrow> worker_outcome" where
  "scan_worker lib net m others reg scan_id target ports thread_count socket_timeout t0 t1 =
     (let reg1 = reg\<lparr>active_scans := (active_scans reg)
                   (scan_id \<mapsto> \<lparr>status = ''running'', progress = 0, start_time = t0,
                                 logs = [], results = [], end_time = None\<rparr>)\<rparr>
      in case gethostbyname net target of
           Inl e \<Rightarrow>
             \<lparr>registry_at_return = reg1,
              registry_after =
                complete_scan
                  (add_log reg1 scan_id
                     (''Failed to resolve '' @ target @ '': '' @ str_exn e) ''error'')
                  scan_id ''failed'' t1,
              scan_trace = [],
              ports_left = ports\<rparr>
         | Inr ip_address \<Rightarrow>
             (let reg2 = (if ip_address \<noteq> target
                          then add_log reg1 scan_id
                                 (''Resolved '' @ target @ '' to '' @ ip_address) ''info''
                          else reg1);
                  reg3 = reg2\<lparr>engine := (engine reg2)\<lparr>timeout := socket_timeout\<rparr>\<rparr>;
                  scan = scan_ports_with lib net m (engine reg3) target ports thread_count
                           (progress_call net scan_id (length ports) others) ((reg3, 0), 0);
                  reg4 = others (snd (state_then scan)) (fst (fst (state_then scan)));
                  outcome = and_then (returned_then scan) (\<lambda>found.
                              finish_scan reg4 scan_id found t1)
              in \<lparr>registry_at_return = reg4,
                  registry_after = (case outcome of
                                      Inl e \<Rightarrow> fail_scan reg4 scan_id e t1
                                    | Inr reg5 \<Rightarrow> reg5),
                  scan_trace = trace_then scan,
                  ports_left = ports_then scan\<rparr>))"

text \<open>
  Two ways the other threads can behave during the example scan: they leave the registry
  alone, or a stop request for the scan arrives at time 5, after the first progress call.
\<close>

definition no_others :: "nat \<Rightarrow> registry \<Rightarrow> registry" where
  "no_others k reg = reg"

definition stop_after_first :: "nat \<Rightarrow> registry \<Rightarrow> registry" where
  "stop_after_first k reg =
     (if k = 1 then fst (api_stop_scan reg ''1700000000_scanme.example'' 5) else reg)"

section \<open>Properties\<close>

subsection \<open>Worker count\<close>

lemma capped_thread_count_le:
  "capped_thread_count cpus thread_count \<le> thread_count"
  "capped_thread_count cpus thread_count \<le> max_recommended_threads cpus"
  by (simp_all add: capped_thread_count_def exceeds_recommended_def)

text \<open>
  C5. For every requested thread count, port list and CPU count, the number of workers
  that the pool of \<^verbatim>\<open>scan_ports\<close> is created with is at most the requested count,
  at most the number of ports and at most the platform cap of twice the CPU count, hence
  at most their minimum.
\<close>

theorem scan_ports_workers_bounded:
  "workers (scan_ports lib net m self h ps tc cb)
     \<le> min tc (min (int (length ps)) (2 * cpu_count m))"
proof -
  let ?e = "effective_thread_count (cpu_count m) tc ps"
  have e: "?e \<le> tc" "?e \<le> int (length ps)" "?e \<le> 2 * cpu_count m"
    using capped_thread_count_le [of "cpu_count m" tc]
    by (simp_all add: effective_thread_count_def max_recommended_threads_def min_le_iff_disj)
  have "workers (scan_ports lib net m self h ps tc cb) \<le> ?e"
    by (simp add: scan_ports_def Let_def execute_tasks_def optimal_thread_count_def)
  with e show ?thesis by simp
qed

subsection \<open>Port Prober\<close>

lemma test_port_Inr: "test_port net h p = Inr (connect_attempt (probe net h p) p = Inr 0)"
  by (simp add: test_port_def except_Exception_def and_then_def split: sum.splits)





subsection \<open>The receive loop of the HTTP branch\<close>

lemma recv_loop_bound:
  "\<forall>k chunk. recv k = Inr chunk \<longrightarrow> length chunk \<le> 4096 \<Longrightarrow>
   length response \<le> 8192 \<Longrightarrow> recv_loop recv k response = Inr out \<Longrightarrow> length out \<le> 12288"
proof (induction recv k response rule: recv_loop.induct)
  case (1 recv k response)
  show ?case
  proof (cases "recv k")
    case (Inl e)
    with "1.prems" show ?thesis by (simp add: recv_loop.simps split: if_splits)
  next
    case (Inr chunk)
    then have len: "length chunk \<le> 4096" using "1.prems"(1) by blast
    show ?thesis
    proof (cases "chunk = []")
      case True
      with Inr "1.prems" show ?thesis by (simp add: recv_loop.simps)
    next
      case False
      show ?thesis
      proof (cases "length (response @ chunk) > 8192")
        case True
        then have "out = response @ chunk"
          using Inr False "1.prems"(3) by (simp add: recv_loop.simps)
        then show ?thesis using len "1.prems"(2) by simp
      next
        case over: False
        then have "recv_loop recv (Suc k) (response @ chunk) = Inr out"
          using Inr False "1.prems"(3) by (simp add: recv_loop.simps)
        moreover have "length (response @ chunk) \<le> 8192" using over by simp
        ultimately show ?thesis using "1.IH" [OF Inr False over "1.prems"(1)] by blast
      qed
    qed
  qed
qed

lemma recv_loop_endless:
  "recv_loop (http_recv endless_http) 0 [] =
     Inr (replicate 4096 CHR ''a'' @ replicate 4096 CHR ''a'' @ replicate 4096 CHR ''a'')"
  by (simp add: recv_loop.simps endless_http_def)

text \<open>
  C9, as stated: the response accumulated by the HTTP branch never exceeds 8192 bytes.
  It fails on a peer that sends 4096 bytes on every read: the threshold is tested after
  the chunk has been appended, and the third chunk brings the response to 12288 bytes.
\<close>

theorem http_response_exceeds_8192:
  "recv_loop (http_recv endless_http) 0 [] =
     Inr (replicate 4096 CHR ''a'' @ replicate 4096 CHR ''a'' @ replicate 4096 CHR ''a'') \<and>
   \<not> length (replicate 4096 CHR ''a'' @ replicate 4096 CHR ''a'' @ replicate 4096 CHR ''a'')
       \<le> 8192"
  using recv_loop_endless by simp

text \<open>
  C9, amended. The loop of the HTTP branch stops reading once the response is longer than
  8192 bytes or the stream closes or times out; as one read returns 4096 bytes at most,
  the response it accumulates never exceeds 8192 + 4096 = 12288 bytes.
\<close>

theorem http_response_bounded:
  assumes "\<forall>k chunk. http_recv io k = Inr chunk \<longrightarrow> length chunk \<le> 4096"
    and "recv_loop (http_recv io) 0 [] = Inr response"
  shows "length response \<le> 8192 + 4096"
  using recv_loop_bound [OF assms(1) _ assms(2)] by simp

theorem http_response_bounded_witness:
  "recv_loop (http_recv endless_http) 0 [] =
     Inr (replicate 4096 CHR ''a'' @ replicate 4096 CHR ''a'' @ replicate 4096 CHR ''a'') \<and>
   length (replicate 4096 CHR ''a'' @ replicate 4096 CHR ''a'' @ replicate 4096 CHR ''a'')
     \<le> 8192 + 4096"
proof -
  have small: "\<forall>k chunk. http_recv endless_http k = Inr chunk \<longrightarrow> length chunk \<le> 4096"
    by (auto simp add: endless_http_def)
  from http_response_bounded [OF small recv_loop_endless] recv_loop_endless
  show ?thesis by blast
qed

subsection \<open>The shuffle\<close>

lemma mset_shuffle_from:
  "m < length x \<Longrightarrow> mset (shuffle_from d k m x) = mset x"
proof (induction m arbitrary: k x)
  case 0
  then show ?case by simp
next
  case (Suc m)
  let ?j = "d k mod (Suc m + 1)"
  have "?j < Suc m + 1" by (rule mod_less_divisor) simp
  then have j: "?j < length x" using Suc.prems by linarith
  have "mset (x[Suc m := x ! ?j, ?j := x ! Suc m]) = mset x"
    using mset_swap [of ?j x "Suc m"] j Suc.prems by simp
  moreover have "m < length (x[Suc m := x ! ?j, ?j := x ! Suc m])" using Suc.prems by simp
  ultimately show ?case using Suc.IH by (simp add: Let_def)
qed

lemma mset_shuffle: "mset (shuffle d x) = mset x"
proof (cases x)
  case Nil
  then show ?thesis by (simp add: shuffle_def)
next
  case (Cons a list)
  then show ?thesis by (simp add: shuffle_def mset_shuffle_from)
qed

lemma ports_after_scan_ports:
  "ports_after (scan_ports lib net m self h ps tc cb) = shuffle (draw m) ps"
  by (simp add: scan_ports_def Let_def split_def)

lemma shuffle_example: "shuffle (\<lambda>k. 0) [21, 22, 23 :: int] = [22, 23, 21]"
  by (simp add: shuffle_def numeral_2_eq_2)

text \<open>
  C10. A call of \<^verbatim>\<open>scan_ports\<close> shuffles the caller's list of ports in place:
  afterwards the list holds the same ports, each as often as before, in the order the
  random generator gave, and the engine's own fields are as they were.
\<close>

theorem scan_ports_shuffles_in_place:
  "ports_after (scan_ports lib net m self h ps tc cb) = shuffle (draw m) ps \<and>
   mset (ports_after (scan_ports lib net m self h ps tc cb)) = mset ps \<and>
   engine_after (scan_ports lib net m self h ps tc cb) = self"
  by (simp add: ports_after_scan_ports mset_shuffle) (simp add: scan_ports_def Let_def split_def)

text \<open>On three ports and a generator that always draws 0 the order does change.\<close>

theorem scan_ports_shuffles_in_place_witness:
  "ports_after (scan_ports example_lib example_net example_machine new_scanner_engine
      ''scanme.example'' [21, 22, 23] 2 True) = [22, 23, 21] \<and>
   [22, 23, 21] \<noteq> [21, 22, 23 :: int] \<and>
   engine_after (scan_ports example_lib example_net example_machine new_scanner_engine
      ''scanme.example'' [21, 22, 23] 2 True) = new_scanner_engine"
  using scan_ports_shuffles_in_place [of example_lib example_net example_machine
      new_scanner_engine "''scanme.example''" "[21, 22, 23]" 2 True]
    shuffle_example
  by (simp add: example_machine_def)

subsection \<open>Banner/Protocol Inspector\<close>

lemma grab_http_banner_Inr:
  "grab_http_banner lib net h p u =
     Inr (case http_attempt lib (http net h p) u of Inl e \<Rightarrow> empty_http_info | Inr i \<Rightarrow> i)"
  by (simp add: grab_http_banner_def except_Exception_def split: sum.splits)

lemma grab_protocol_banner_Inr:
  "grab_protocol_banner lib net h p =
     Inr (case banner_attempt lib (banner_conn net h p) of Inl e \<Rightarrow> [] | Inr b \<Rightarrow> b)"
  by (simp add: grab_protocol_banner_def except_Exception_def split: sum.splits)

lemma banner_branch_Inr: "\<exists>b. banner_branch lib net h p s bi = Inr b"
  by (simp add: banner_branch_def grab_http_banner_Inr grab_protocol_banner_Inr and_then_def)

lemma banner_branch_ssl_cert:
  "banner_branch lib net h p s bi = Inr b \<Longrightarrow> ssl_cert b = ssl_cert bi"
  by (auto simp add: banner_branch_def grab_http_banner_Inr grab_protocol_banner_Inr and_then_def
      split: if_splits option.splits prod.splits)

lemma banner_branch_ssl_update:
  "banner_branch lib net h p s (bi\<lparr>ssl_cert := c\<rparr>) =
     (case banner_branch lib net h p s bi of Inl e \<Rightarrow> Inl e | Inr b \<Rightarrow> Inr (b\<lparr>ssl_cert := c\<rparr>))"
  by (simp add: banner_branch_def grab_http_banner_Inr grab_protocol_banner_Inr and_then_def
      split: option.split prod.split)

lemma tls_branch_shape:
  "tls_branch net h p s bi = Inr b \<Longrightarrow> b = bi\<lparr>ssl_cert := ssl_cert b\<rparr>"
  by (auto simp add: tls_branch_def and_then_def split: if_splits sum.splits)

lemma tls_branch_text:
  "tls_branch net h p s bi = Inr b \<Longrightarrow> banner b = banner bi \<and> version b = version bi \<and> server b = server bi"
  by (auto simp add: tls_branch_def and_then_def split: if_splits sum.splits)

lemma grab_banner_Inr: "\<exists>b. grab_banner lib net h p s = Inr b"
  by (simp add: grab_banner_def split: sum.splits)

lemma grab_banner_ssl_cert:
  "grab_banner lib net h p s = Inr b \<Longrightarrow> ssl_cert b = tls_outcome net h p s"
  by (auto simp add: grab_banner_def tls_outcome_def initial_banner_info_def
      split: sum.splits dest: banner_branch_ssl_cert)


lemma grab_banner_text:
  assumes "grab_banner lib net h p s = Inr b"
    and "tls_applies s p \<longrightarrow> (\<exists>i. get_ssl_info net h p = Inr i)"
  shows "(banner b, version b, server b) = banner_outcome lib net h p s"
proof -
  have "\<exists>b1. tls_branch net h p s initial_banner_info = Inr b1"
    using assms(2) by (cases "tls_applies s p") (auto simp add: tls_branch_def and_then_def)
  then obtain b1 where b1: "tls_branch net h p s initial_banner_info = Inr b1" by blast
  obtain b' where b': "banner_branch lib net h p s initial_banner_info = Inr b'"
    using banner_branch_Inr by blast
  have "banner_branch lib net h p s b1 =
          banner_branch lib net h p s (initial_banner_info\<lparr>ssl_cert := ssl_cert b1\<rparr>)"
    using tls_branch_shape [OF b1] by simp
  also have "\<dots> = Inr (b'\<lparr>ssl_cert := ssl_cert b1\<rparr>)"
    by (simp add: banner_branch_ssl_update b')
  finally have "b = b'\<lparr>ssl_cert := ssl_cert b1\<rparr>"
    using assms(1) b1 by (simp add: grab_banner_def)
  then show ?thesis using b' by (simp add: banner_outcome_def)
qed

lemma get_ssl_info_failure:
  "ssl_handshake (tls net h p) initial_ssl_info = Inl (e, i) \<Longrightarrow> is_OSError e \<Longrightarrow>
   get_ssl_info net h p = Inr (i\<lparr>ssl_error := Some (str_exn e)\<rparr>)"
  by (simp add: get_ssl_info_def)

lemma http_failure_text:
  assumes "grab_banner lib net h p s = Inr b" "http_applies s p"
    "http_attempt lib (http net h p) (s = ''HTTPS'' \<or> p = 443) = Inl e"
  shows "banner b = [] \<and> version b = [] \<and> server b = []"
  using assms
  by (auto simp add: grab_banner_def banner_branch_def grab_http_banner_Inr and_then_def
      empty_http_info_def initial_banner_info_def split: sum.splits dest: tls_branch_text)

lemma banner_failure_text:
  assumes "grab_banner lib net h p s = Inr b" "\<not> http_applies s p"
    "banner_attempt lib (banner_conn net h p) = Inl e"
  shows "banner b = [] \<and> version b = [] \<and> server b = []"
  using assms
  by (auto simp add: grab_banner_def banner_branch_def grab_protocol_banner_Inr and_then_def
      initial_banner_info_def split: sum.splits if_splits dest: tls_branch_text)

text \<open>
  C8, as stated: a failure in a branch leaves that branch's fields empty. It fails for
  the TLS branch: after a failed handshake on an IMAPS port the certificate entry is not
  the empty dictionary but a record with the error text.
\<close>

theorem tls_failure_fills_ssl_cert:
  "tls_wrap_socket (tls example_net ''scanme.example'' 993) =
     Some (SSLError ''[SSL: WRONG_VERSION_NUMBER] wrong version number'') \<and>
   grab_banner example_lib example_net ''scanme.example'' 993 ''IMAPS'' =
     Inr (initial_banner_info
           \<lparr>ssl_cert := Some (initial_ssl_info
              \<lparr>ssl_error := Some ''[SSL: WRONG_VERSION_NUMBER] wrong version number''\<rparr>)\<rparr>) \<and>
   ssl_cert (initial_banner_info
           \<lparr>ssl_cert := Some (initial_ssl_info
              \<lparr>ssl_error := Some ''[SSL: WRONG_VERSION_NUMBER] wrong version number''\<rparr>)\<rparr>)
     \<noteq> ssl_cert initial_banner_info"
  by (simp add: grab_banner_def tls_branch_def tls_applies_def http_applies_def banner_branch_def
      get_ssl_info_def ssl_handshake_def ssl_info_of_def example_net_def failed_handshake_def
      grab_http_banner_def http_attempt_def http_exchange_def brief_http_def recv_loop.simps
      parse_http_response_def example_lib_def grab_protocol_banner_def banner_attempt_def
      read_banner_def silent_banner_def banner_of_data_def and_then_def call_def
      except_Exception_def initial_banner_info_def initial_ssl_info_def empty_http_info_def
      tls_outcome_def banner_outcome_def)

text \<open>
  C8, amended. The inspection never raises and always returns the four fields. The
  certificate entry is what the TLS branch alone leaves, whatever the other branches do.
  When the TLS branch fails with an error of the socket or SSL classes, the certificate
  entry is the record built so far with the error text added, and banner, version and
  server are what the other branches give on their own; the same holds whenever the TLS
  branch returns. A failure in the HTTP branch, or in the banner read of the FTP, SSH,
  SMTP and generic branches, leaves banner, version and server empty.
\<close>

theorem grab_banner_tolerant:
  "\<exists>b. grab_banner lib net h p s = Inr b \<and>
       ssl_cert b = tls_outcome net h p s \<and>
       ((tls_applies s p \<longrightarrow> (\<exists>i. get_ssl_info net h p = Inr i)) \<longrightarrow>
          (banner b, version b, server b) = banner_outcome lib net h p s) \<and>
       (\<forall>e i. tls_applies s p \<and> ssl_handshake (tls net h p) initial_ssl_info = Inl (e, i) \<and>
              is_OSError e \<longrightarrow>
          ssl_cert b = Some (i\<lparr>ssl_error := Some (str_exn e)\<rparr>) \<and>
          (banner b, version b, server b) = banner_outcome lib net h p s) \<and>
       (\<forall>e. http_applies s p \<and>
            http_attempt lib (http net h p) (s = ''HTTPS'' \<or> p = 443) = Inl e \<longrightarrow>
          banner b = [] \<and> version b = [] \<and> server b = []) \<and>
       (\<forall>e. \<not> http_applies s p \<and> banner_attempt lib (banner_conn net h p) = Inl e \<longrightarrow>
          banner b = [] \<and> version b = [] \<and> server b = [])"
proof -
  obtain b where b: "grab_banner lib net h p s = Inr b" using grab_banner_Inr by blast
  have c: "ssl_cert b = tls_outcome net h p s" by (rule grab_banner_ssl_cert [OF b])
  have t: "(banner b, version b, server b) = banner_outcome lib net h p s"
    if "tls_applies s p \<longrightarrow> (\<exists>i. get_ssl_info net h p = Inr i)"
    using grab_banner_text [OF b that] .
  have f: "ssl_cert b = Some (i\<lparr>ssl_error := Some (str_exn e)\<rparr>) \<and>
          (banner b, version b, server b) = banner_outcome lib net h p s"
    if "tls_applies s p" "ssl_handshake (tls net h p) initial_ssl_info = Inl (e, i)" "is_OSError e"
    for e i
  proof -
    have g: "get_ssl_info net h p = Inr (i\<lparr>ssl_error := Some (str_exn e)\<rparr>)"
      using get_ssl_info_failure that(2,3) by blast
    then have "tls_outcome net h p s = Some (i\<lparr>ssl_error := Some (str_exn e)\<rparr>)"
      using that(1) by (simp add: tls_outcome_def tls_branch_def and_then_def)
    moreover have "(banner b, version b, server b) = banner_outcome lib net h p s"
      using t g by blast
    ultimately show ?thesis using c by simp
  qed
  show ?thesis
    using b c t f http_failure_text [OF b] banner_failure_text [OF b] by blast
qed

theorem grab_banner_tolerant_witness:
  "grab_banner example_lib example_net ''scanme.example'' 443 ''HTTPS'' =
     Inr \<lparr>banner = ''HTTP/1.1 200 OK'', version = [], server = [],
          ssl_cert = Some (initial_ssl_info
            \<lparr>ssl_error := Some ''[SSL: WRONG_VERSION_NUMBER] wrong version number''\<rparr>)\<rparr>"
  using grab_banner_tolerant [of example_lib example_net "''scanme.example''" 443 "''HTTPS''"]
  by (simp add: grab_banner_def tls_branch_def tls_applies_def http_applies_def banner_branch_def
      get_ssl_info_def ssl_handshake_def ssl_info_of_def example_net_def failed_handshake_def
      grab_http_banner_def http_attempt_def http_exchange_def brief_http_def recv_loop.simps
      parse_http_response_def example_lib_def grab_protocol_banner_def banner_attempt_def
      read_banner_def silent_banner_def banner_of_data_def and_then_def call_def
      except_Exception_def initial_banner_info_def initial_ssl_info_def empty_http_info_def
      tls_outcome_def banner_outcome_def)

subsection \<open>Probes and progress events of a scan\<close>

lemma fetch_service_info_valid:
  "0 \<le> p \<Longrightarrow> p \<le> 65535 \<Longrightarrow> \<exists>s. fetch_service_info net p = Inr s"
  by (auto simp: fetch_service_info_def getservbyport_def split: option.splits sum.splits)

lemma grab_banner_not_Inl [simp]: "grab_banner lib net h p s \<noteq> Inl e"
  using grab_banner_Inr [of lib net h p s] by auto

lemma scan_port_worker_events:
  assumes "0 \<le> p" "p \<le> 65535"
  shows "fst (scan_port_worker lib net h p cb) =
           Probed p # (if cb then [Progress p (Status (test_port net h p = Inr True))] else [])"
proof -
  obtain s where s: "fetch_service_info net p = Inr s"
    using fetch_service_info_valid [OF assms] by blast
  obtain b where b: "grab_banner lib net h p s = Inr b" using grab_banner_Inr by blast
  show ?thesis
    by (simp add: scan_port_worker_def test_port_Inr s b and_then_def)
qed

lemma submit_loop_no_stop:
  "\<forall>k. \<not> stop_at_submit env k \<Longrightarrow> submit_loop env k ts = ts"
  by (induction ts arbitrary: k) auto

lemma events_scan_ports:
  assumes "1 \<le> tc" "1 \<le> cpu_count m" "1 \<le> max_thread_count m"
    and "\<forall>k. \<not> stop_at_submit (pool m) k"
  shows "events (scan_ports lib net m self h ps tc cb) =
           (if 2 * cpu_count m < tc \<and> cb
            then [Progress 0 (Message (warning_text tc (2 * cpu_count m)))] else []) @
           concat (map (\<lambda>p. fst (scan_port_worker lib net h p cb)) (shuffle (draw m) ps))"
proof (cases "ps = []")
  case True
  then show ?thesis
    by (simp add: scan_ports_def Let_def split_def execute_tasks_def shuffle_def
        exceeds_recommended_def max_recommended_threads_def mult.commute)
next
  case False
  then have len: "1 \<le> int (length ps)" by (cases ps) auto
  have "length (shuffle (draw m) ps) = length ps"
    using mset_shuffle [of "draw m" ps] by (metis size_mset)
  then have "\<not> optimal_thread_count (effective_thread_count (cpu_count m) tc ps)
      (map (\<lambda>p. scan_port_worker lib net h p cb) (shuffle (draw m) ps)) (max_thread_count m) \<le> 0"
    using assms(1-3) len
    by (auto simp add: optimal_thread_count_def effective_thread_count_def capped_thread_count_def
        exceeds_recommended_def max_recommended_threads_def min_def)
  then show ?thesis
    by (simp add: scan_ports_def Let_def split_def execute_tasks_def submit_loop_no_stop [OF assms(4)]
        exceeds_recommended_def max_recommended_threads_def mult.commute comp_def)
qed

lemma filter_concat_worker:
  assumes "\<forall>p \<in> set qs. 0 \<le> p \<and> p \<le> 65535"
  shows "filter is_probe (concat (map (\<lambda>p. fst (scan_port_worker lib net h p True)) qs)) = map Probed qs"
    and "filter is_progress (concat (map (\<lambda>p. fst (scan_port_worker lib net h p True)) qs)) =
         map (\<lambda>p. Progress p (Status (test_port net h p = Inr True))) qs"
  using assms by (induction qs) (simp_all add: scan_port_worker_events)

lemma example_progress:
  "filter is_progress (events (scan_ports example_lib example_net example_machine
       new_scanner_engine ''scanme.example'' [80] 3 True)) =
     [Progress 0 (Message
        ''WARNING: Requested 3 threads exceeds the recommended maximum of 2. Using 2 threads instead.''),
      Progress 80 (Status True)]"
  by (simp add: scan_ports_def shuffle_def example_machine_def max_recommended_threads_def
      exceeds_recommended_def effective_thread_count_def capped_thread_count_def
      MAX_THREAD_COUNT_def execute_tasks_def optimal_thread_count_def calm_pool_def
      scan_port_worker_def test_port_Inr connect_attempt_def connect_ex_def example_net_def open_probe_def
      refused_probe_def and_then_def call_def future_result_def fetch_service_info_def
      SERVICE_MAP_def
      warning_text_def warning_msg_def str_int_def str_nat.simps digit_def split: sum.splits)

text \<open>
  C2, as stated: a full run calls the progress callback exactly once per port, each call
  carrying a port of the list. It fails when the requested thread count exceeds twice the
  CPU count: on one CPU, three threads and the single port 80 there are two progress
  calls, the first with port 0 and the warning text.
\<close>

theorem extra_progress_event:
  "length (filter is_progress (events (scan_ports example_lib example_net example_machine
       new_scanner_engine ''scanme.example'' [80] 3 True))) = 2 \<and>
   length [80 :: int] = 1 \<and>
   event_port (hd (filter is_progress (events (scan_ports example_lib example_net
       example_machine new_scanner_engine ''scanme.example'' [80] 3 True)))) = 0 \<and>
   (0 :: int) \<notin> set [80]"
  by (simp add: example_progress)

text \<open>
  C2, amended. For every list of ports in 1..65535 and every thread count of 1 or more,
  on a machine with one CPU or more and a positive \<^verbatim>\<open>MAX_THREAD_COUNT\<close>, a run
  that is not stopped probes each port of the list exactly once (the probes are the
  shuffled list) and calls the progress callback once per port with that port and its
  open flag. When the requested thread count exceeds twice the CPU count, one more call
  comes first: \<^verbatim>\<open>progress_callback(0, warning)\<close>.
\<close>

theorem scan_ports_events:
  assumes "1 \<le> tc" "1 \<le> cpu_count m" "1 \<le> max_thread_count m"
    and "\<forall>k. \<not> stop_at_submit (pool m) k"
    and "\<forall>p \<in> set ps. 1 \<le> p \<and> p \<le> 65535"
  shows "filter is_probe (events (scan_ports lib net m self h ps tc True)) =
           map Probed (ports_after (scan_ports lib net m self h ps tc True)) \<and>
         mset (ports_after (scan_ports lib net m self h ps tc True)) = mset ps \<and>
         filter is_progress (events (scan_ports lib net m self h ps tc True)) =
           (if 2 * cpu_count m < tc
            then [Progress 0 (Message (warning_text tc (2 * cpu_count m)))] else []) @
           map (\<lambda>p. Progress p (Status (test_port net h p = Inr True)))
             (ports_after (scan_ports lib net m self h ps tc True))"
proof -
  have "set (shuffle (draw m) ps) = set ps"
    using mset_shuffle [of "draw m" ps] by (metis set_mset_mset)
  with assms(5) have valid: "\<forall>p \<in> set (shuffle (draw m) ps). 0 \<le> p \<and> p \<le> 65535" by auto
  show ?thesis
    unfolding events_scan_ports [OF assms(1-4)] ports_after_scan_ports
    by (simp add: filter_concat_worker [OF valid] mset_shuffle)
qed

theorem scan_ports_events_witness:
  "filter is_probe (events (scan_ports example_lib example_net example_machine
       new_scanner_engine ''scanme.example'' [22, 80] 2 True)) = [Probed 80, Probed 22] \<and>
   filter is_progress (events (scan_ports example_lib example_net example_machine
       new_scanner_engine ''scanme.example'' [22, 80] 2 True)) =
     [Progress 80 (Status True), Progress 22 (Status False)]"
proof -
  have "filter is_probe (events (scan_ports example_lib example_net example_machine
       new_scanner_engine ''scanme.example'' [22, 80] 2 True)) =
          map Probed (ports_after (scan_ports example_lib example_net example_machine
       new_scanner_engine ''scanme.example'' [22, 80] 2 True)) \<and>
        filter is_progress (events (scan_ports example_lib example_net example_machine
       new_scanner_engine ''scanme.example'' [22, 80] 2 True)) =
          map (\<lambda>p. Progress p (Status (test_port example_net ''scanme.example'' p = Inr True)))
            (ports_after (scan_ports example_lib example_net example_machine
       new_scanner_engine ''scanme.example'' [22, 80] 2 True))"
    using scan_ports_events [of 2 example_machine "[22, 80]" example_lib example_net
        new_scanner_engine "''scanme.example''"]
    by (simp add: example_machine_def calm_pool_def MAX_THREAD_COUNT_def)
  then show ?thesis
    by (simp add: ports_after_scan_ports shuffle_def example_machine_def test_port_Inr
        connect_attempt_def connect_ex_def example_net_def open_probe_def refused_probe_def and_then_def
        call_def)
qed

subsection \<open>The result dictionary\<close>

lemma scan_port_worker_result:
  "snd (scan_port_worker lib net h p cb) = Inr (q, is_open, svc, bi) \<Longrightarrow>
     q = p \<and> test_port net h p = Inr is_open \<and> (is_open \<longrightarrow> fetch_service_info net p = Inr svc)"
  by (auto simp: scan_port_worker_def split: sum.splits if_splits)

lemma set_submit_loop: "set (submit_loop env k ts) \<subseteq> set ts"
  by (induction ts arbitrary: k) auto

lemma collect_loop_from_task:
  "r \<in> set (collect_loop env k fs) \<Longrightarrow> \<exists>f \<in> set fs. snd f = Inr r"
  by (induction fs arbitrary: k) (auto simp: future_result_def split: if_splits sum.splits)

lemma set_update_subset: "set (AList.update k v al) \<subseteq> insert (k, v) (set al)"
  by (induction al) auto

lemma collect_open_entries:
  "(p, d) \<in> set (collect_open rs acc) \<Longrightarrow>
     (p, d) \<in> set acc \<or> (\<exists>svc bi. (p, True, svc, bi) \<in> set rs \<and> d = port_data_of svc bi)"
proof (induction rs acc rule: collect_open.induct)
  case (1 open_ports)
  then show ?case by simp
next
  case (2 q is_open svc bi results open_ports)
  show ?case
  proof (cases is_open)
    case True
    with 2 have "(p, d) \<in> set (AList.update q (port_data_of svc bi) open_ports) \<or>
       (\<exists>svc bi. (p, True, svc, bi) \<in> set results \<and> d = port_data_of svc bi)" by simp
    then show ?thesis using set_update_subset [of q "port_data_of svc bi" open_ports] True by auto
  next
    case False
    with 2 show ?thesis by auto
  qed
qed

lemma distinct_collect_open:
  "distinct (map fst acc) \<Longrightarrow> distinct (map fst (collect_open rs acc))"
  by (induction rs acc rule: collect_open.induct) (auto simp: distinct_update)

lemma service_port_data_of: "service (port_data_of svc bi) = svc"
  by (simp add: port_data_of_def split: option.splits)

lemma returned_scan_ports:
  "returned (scan_ports lib net m self h ps tc cb) = Inr open_ports \<Longrightarrow>
   \<exists>rs. open_ports = collect_open rs [] \<and>
        (\<forall>r \<in> set rs. \<exists>p \<in> set ps. snd (scan_port_worker lib net h p cb) = Inr r)"
proof -
  assume a: "returned (scan_ports lib net m self h ps tc cb) = Inr open_ports"
  let ?tasks = "map (\<lambda>p. scan_port_worker lib net h p cb) (shuffle (draw m) ps)"
  let ?rs = "collect_loop (pool m) 0 (submit_loop (pool m) 0 ?tasks)"
  from a have op: "open_ports = collect_open ?rs []"
    by (simp add: scan_ports_def Let_def split_def execute_tasks_def and_then_def split: if_splits)
  have "\<exists>p \<in> set ps. snd (scan_port_worker lib net h p cb) = Inr r" if "r \<in> set ?rs" for r
  proof -
    from collect_loop_from_task [OF that] obtain f
      where f: "f \<in> set (submit_loop (pool m) 0 ?tasks)" "snd f = Inr r" by blast
    then have "f \<in> set ?tasks" using set_submit_loop [of "pool m" 0 ?tasks] by blast
    then obtain p where "p \<in> set (shuffle (draw m) ps)" "f = scan_port_worker lib net h p cb" by auto
    moreover have "set (shuffle (draw m) ps) = set ps" 
      using mset_shuffle [of "draw m" ps] by (metis set_mset_mset)
    ultimately show ?thesis using f by blast
  qed
  with op show ?thesis by blast
qed

text \<open>
  C6. Every key of the dictionary that \<^verbatim>\<open>scan_ports\<close> returns is a port of the
  list that the prober reported open, its entry's service is the string the classifier
  returns for that port, and no key occurs twice.
\<close>

theorem scan_result_only_open_ports:
  assumes "returned (scan_ports lib net m self h ps tc cb) = Inr open_ports"
    and "(p, d) \<in> set open_ports"
  shows "p \<in> set ps \<and> test_port net h p = Inr True \<and>
         fetch_service_info net p = Inr (service d) \<and> distinct (map fst open_ports)"
proof -
  from returned_scan_ports [OF assms(1)] obtain rs
    where rs: "open_ports = collect_open rs []"
      "\<forall>r \<in> set rs. \<exists>p \<in> set ps. snd (scan_port_worker lib net h p cb) = Inr r" by blast
  from assms(2) rs(1) collect_open_entries [of p d rs "[]"] obtain svc bi
    where e: "(p, True, svc, bi) \<in> set rs" "d = port_data_of svc bi" by auto
  from rs(2) e(1) obtain q where q: "q \<in> set ps"
    "snd (scan_port_worker lib net h q cb) = Inr (p, True, svc, bi)" by blast
  from scan_port_worker_result [OF q(2)] q(1) e(2) have
    "p \<in> set ps \<and> test_port net h p = Inr True \<and> fetch_service_info net p = Inr (service d)"
    by (simp add: service_port_data_of)
  moreover have "distinct (map fst open_ports)" using rs(1) distinct_collect_open [of "[]" rs] by simp
  ultimately show ?thesis by blast
qed

lemma example_returned:
  "returned (scan_ports example_lib example_net example_machine new_scanner_engine
       ''scanme.example'' [22, 80] 2 True) =
     Inr [(80, \<lparr>banner = ''HTTP/1.1 200 OK'', version = [], server = [], ssl_cert = None,
                service = ''HTTP''\<rparr>)]"
  by (simp add: scan_ports_def shuffle_def example_machine_def max_recommended_threads_def
      exceeds_recommended_def effective_thread_count_def capped_thread_count_def
      MAX_THREAD_COUNT_def execute_tasks_def optimal_thread_count_def calm_pool_def
      scan_port_worker_def test_port_Inr connect_attempt_def connect_ex_def example_net_def open_probe_def
      refused_probe_def and_then_def call_def future_result_def fetch_service_info_def
      SERVICE_MAP_def
      grab_banner_def tls_branch_def tls_applies_def http_applies_def banner_branch_def
      grab_http_banner_def http_attempt_def http_exchange_def brief_http_def recv_loop.simps
      parse_http_response_def example_lib_def except_Exception_def initial_banner_info_def
      empty_http_info_def port_data_of_def)

theorem scan_result_only_open_ports_witness:
  "80 \<in> set [22, 80 :: int] \<and> test_port example_net ''scanme.example'' 80 = Inr True \<and>
   fetch_service_info example_net 80 = Inr ''HTTP''"
  using scan_result_only_open_ports [OF example_returned, of 80
      "\<lparr>banner = ''HTTP/1.1 200 OK'', version = [], server = [], ssl_cert = None,
        service = ''HTTP''\<rparr>"]
  by simp

subsection \<open>Port specifications\<close>

lemmas parse_eval = parse_port_range_def validate_port_range_def validate_part_def reraise_def
  unpack_two_ints_def and_then_def py_int_def int_space_def strip_def isspace_def digits_def
  isdigit_def digit_value_def invalid_literal_def repr_def repr_char_def printable_def
  hex_digit_def Let_def str_int_def str_nat.simps digit_def

text \<open>What holds of \<^verbatim>\<open>parse_port_range\<close>: the default list, the scenario, sorting.\<close>

lemma parse_port_range_empty: "parse_port_range default_ports [] = Inr default_ports"
  by (simp add: parse_port_range_def)

lemma parse_port_range_scenario:
  "parse_port_range DEFAULT_PORTS ''80,443,8000-8002'' = Inr [80, 443, 8000, 8001, 8002]"
  by (simp add: parse_eval)

lemma parse_port_range_malformed:
  "parse_port_range DEFAULT_PORTS ''1-2-3'' =
     Inl (ValueError ''too many values to unpack (expected 2)'')"
  by (simp add: parse_eval)

text \<open>
  \<^verbatim>\<open>validate_port_range\<close> of the engine, which no caller uses, does validate: what
  it returns is sorted, without duplicates and within 1..65535.
\<close>

lemma validate_part_range:
  "validate_part part = Inr ps \<Longrightarrow> \<forall>p \<in> set ps. 1 \<le> p \<and> p \<le> 65535"
  by (auto simp add: validate_part_def and_then_def split: if_splits sum.splits prod.splits)

lemma validate_parts_range:
  "validate_parts parts acc = Inr ps \<Longrightarrow> \<forall>p \<in> set acc. 1 \<le> p \<and> p \<le> 65535 \<Longrightarrow>
   \<forall>p \<in> set ps. 1 \<le> p \<and> p \<le> 65535"
proof (induction parts arbitrary: acc)
  case Nil
  then show ?case by simp
next
  case (Cons part parts)
  from Cons.prems(1) obtain qs where q: "validate_part (strip part) = Inr qs"
    "validate_parts parts (acc @ qs) = Inr ps"
    by (auto split: sum.splits)
  have "\<forall>p \<in> set (acc @ qs). 1 \<le> p \<and> p \<le> 65535"
    using Cons.prems(2) validate_part_range [OF q(1)] by auto
  from Cons.IH [OF q(2) this] show ?case .
qed

lemma validate_port_range_sound:
  assumes "validate_port_range s = Inr ps"
  shows "sorted ps \<and> distinct ps \<and> (\<forall>p \<in> set ps. 1 \<le> p \<and> p \<le> 65535)"
proof -
  from assms obtain qs where q: "validate_parts (split_on CHR '','' s) [] = Inr qs"
    "ps = sort (remdups qs)"
    by (auto simp add: validate_port_range_def and_then_def split: if_splits sum.splits)
  from validate_parts_range [OF q(1)] q(2) show ?thesis by simp
qed

lemma parse_port_range_sorted:
  assumes "parse_port_range d s = Inr ps" "s \<noteq> []"
  shows "sorted ps \<and> distinct ps"
  using assms by (auto simp add: parse_port_range_def and_then_def split: sum.splits)

lemma validate_port_range_scenario:
  "validate_port_range ''80, 443 ,8000-8002'' = Inr [80, 443, 8000, 8001, 8002]"
  by (simp add: parse_eval)

text \<open>
  C3. The parser of the web interface, the one that yields the default list on empty
  input, validates neither bound nor order: it returns port 70000 and port 0, and drops
  the range 9-7 in silence, where the claim has the parse fail. The engine's
  \<^verbatim>\<open>validate_port_range\<close> rejects the same inputs.
\<close>

theorem parse_port_range_not_validated:
  "parse_port_range DEFAULT_PORTS ''70000'' = Inr [70000] \<and>
   parse_port_range DEFAULT_PORTS ''0'' = Inr [0] \<and>
   parse_port_range DEFAULT_PORTS ''9-7,80'' = Inr [80] \<and>
   validate_port_range ''70000'' =
     Inl (ValueError ''Port must be between 1 and 65535: 70000'') \<and>
   validate_port_range ''0'' = Inl (ValueError ''Port must be between 1 and 65535: 0'') \<and>
   validate_port_range ''9-7,80'' = Inl (ValueError ''Invalid range (start > end): 9-7'')"
  by (simp add: parse_eval)

subsection \<open>Scan Session Registry\<close>

lemma complete_scan_status:
  "active_scans reg scan_id = Some st \<Longrightarrow>
   active_scans (complete_scan reg scan_id s now) scan_id =
     Some (st\<lparr>status := s, end_time := Some now\<rparr>) \<and>
   scan_results (complete_scan reg scan_id s now) scan_id = Some (results st)"
  by (simp add: complete_scan_def)

lemma add_log_state:
  "active_scans reg scan_id = Some st \<Longrightarrow>
   active_scans (add_log reg scan_id text lvl) scan_id =
     Some (st\<lparr>logs := logs st @ [\<lparr>message = text, level = lvl\<rparr>]\<rparr>)"
  by (simp add: add_log_def)

text \<open>
  C4. If the target host cannot be resolved, the scan ends at once: its status is
  "failed", its results are empty (in the scan's state and in \<^verbatim>\<open>scan_results\<close>),
  and the trace of the engine is empty, so no port has been probed.
\<close>

theorem resolution_failure_fails_scan:
  assumes "gethostbyname net target = Inl e"
  shows "map_option status (active_scans (registry_after
            (scan_worker lib net m others reg scan_id target ps tc to t0 t1)) scan_id) =
           Some ''failed'' \<and>
         map_option results (active_scans (registry_after
            (scan_worker lib net m others reg scan_id target ps tc to t0 t1)) scan_id) =
           Some [] \<and>
         scan_results (registry_after
            (scan_worker lib net m others reg scan_id target ps tc to t0 t1)) scan_id = Some [] \<and>
         filter is_probe (scan_trace
            (scan_worker lib net m others reg scan_id target ps tc to t0 t1)) = [] \<and>
         scan_trace (scan_worker lib net m others reg scan_id target ps tc to t0 t1) = []"
  using assms by (simp add: scan_worker_def Let_def complete_scan_def add_log_def)

theorem resolution_failure_fails_scan_witness:
  "map_option status (active_scans (registry_after
      (scan_worker example_lib example_net example_machine no_others initial_registry
         ''1700000000_nowhere.invalid'' ''nowhere.invalid'' [22, 80] 2 1 0 9))
      ''1700000000_nowhere.invalid'') = Some ''failed'' \<and>
   scan_results (registry_after
      (scan_worker example_lib example_net example_machine no_others initial_registry
         ''1700000000_nowhere.invalid'' ''nowhere.invalid'' [22, 80] 2 1 0 9))
      ''1700000000_nowhere.invalid'' = Some [] \<and>
   scan_trace (scan_worker example_lib example_net example_machine no_others initial_registry
         ''1700000000_nowhere.invalid'' ''nowhere.invalid'' [22, 80] 2 1 0 9) = []"
proof -
  have "gethostbyname example_net ''nowhere.invalid'' =
          Inl (OSError ''[Errno -2] Name or service not known'')"
    by (simp add: example_net_def)
  from resolution_failure_fails_scan [OF this] show ?thesis by blast
qed

lemma inspect_port_worker:
  "snd (scan_port_worker lib net h p cb) = inspect_port lib net h p"
  by (simp add: scan_port_worker_def inspect_port_def and_then_def split: sum.splits)

lemma example_inspect_80:
  "inspect_port example_lib example_net ''scanme.example'' 80 =
     Inr (80, True, ''HTTP'',
          Some \<lparr>banner = ''HTTP/1.1 200 OK'', version = [], server = [], ssl_cert = None\<rparr>)"
  by (simp add: inspect_port_def
      test_port_Inr connect_attempt_def connect_ex_def example_net_def open_probe_def
      refused_probe_def and_then_def call_def fetch_service_info_def
      SERVICE_MAP_def
      grab_banner_def tls_branch_def tls_applies_def http_applies_def banner_branch_def
      grab_http_banner_def http_attempt_def http_exchange_def brief_http_def recv_loop.simps
      parse_http_response_def example_lib_def except_Exception_def initial_banner_info_def
      empty_http_info_def)

lemma example_inspect_22:
  "inspect_port example_lib example_net ''scanme.example'' 22 = Inr (22, False, [], None)"
  by (simp add: inspect_port_def
      test_port_Inr connect_attempt_def connect_ex_def example_net_def open_probe_def
      refused_probe_def and_then_def call_def)

lemma example_scan_with:
  "scan_ports_with example_lib example_net example_machine self ''scanme.example'' [22, 80] 2
     cb s =
   (let first = cb s 80 (Status True); second = cb (fst first) 22 (Status False)
    in \<lparr>ports_then = [80, 22],
        trace_then = [Probed 80, Progress 80 (Status True), Probed 22, Progress 22 (Status False)],
        returned_then = Inr (collect_open
          ((case snd first of
              Some e \<Rightarrow> []
            | None \<Rightarrow> [(80, True, ''HTTP'',
                 Some \<lparr>banner = ''HTTP/1.1 200 OK'', version = [], server = [],
                       ssl_cert = None\<rparr>)]) @
           (case snd second of Some e \<Rightarrow> [] | None \<Rightarrow> [(22, False, [], None)])) []),
        state_then = fst second\<rparr>)"
  by (simp add: scan_ports_with_def shuffle_def example_machine_def max_recommended_threads_def
      exceeds_recommended_def effective_thread_count_def capped_thread_count_def
      MAX_THREAD_COUNT_def execute_tasks_with_def optimal_thread_count_def calm_pool_def
      scan_port_worker_with_def example_inspect_80 example_inspect_22 future_result_def
      and_then_def Let_def split: option.splits)

lemma percentage_examples:
  "percentage 1 2 = 50" "percentage 2 2 = 100" "percentage 1 3 = 33" "percentage 29 50 = 57"
  by (simp_all add: percentage_def int_of_float_def times_100_def nearest_double_def
      scaled_def round_half_even_def bit_length.simps Let_def)

text \<open>
  A callback that raises in a worker costs the scan that port's tuple, and no more: with
  a callback that always raises, the example scan returns an empty dictionary.
\<close>

lemma raising_callback_drops_tuple:
  "returned_then (scan_ports_with example_lib example_net example_machine self
      ''scanme.example'' [22, 80] 2 (\<lambda>s p a. (s, Some e)) s) = Inr []"
  by (simp add: example_scan_with)

text \<open>
  With a callback that never raises, the scan leaves the list of ports, the trace and the
  result of \<^verbatim>\<open>scan_ports\<close> as given above for a callback that is passed.
\<close>

lemma scan_port_worker_with_returning:
  assumes "\<And>s p a. snd (cb s p a) = None"
  shows "fst (scan_port_worker_with lib net h p cb s) = scan_port_worker lib net h p True"
  using assms
  by (simp add: scan_port_worker_with_def scan_port_worker_def inspect_port_def and_then_def
      Let_def split: sum.splits)

lemma run_jobs_returning:
  assumes "\<And>s p a. snd (cb s p a) = None"
  shows "fst (run_jobs (map (\<lambda>p. scan_port_worker_with lib net h p cb) qs) s) =
           map (\<lambda>p. scan_port_worker lib net h p True) qs"
  by (induction qs arbitrary: s) (simp_all add: Let_def scan_port_worker_with_returning [OF assms])

lemma submit_loop_map: "submit_loop env k (map f xs) = map f (submit_loop env k xs)"
  by (induction xs arbitrary: k) auto

lemma scan_ports_with_returning:
  assumes "\<And>s p a. snd (cb s p a) = None"
  shows "ports_then (scan_ports_with lib net m self h ps tc cb s) =
           ports_after (scan_ports lib net m self h ps tc True)"
    and "trace_then (scan_ports_with lib net m self h ps tc cb s) =
           events (scan_ports lib net m self h ps tc True)"
    and "returned_then (scan_ports_with lib net m self h ps tc cb s) =
           returned (scan_ports lib net m self h ps tc True)"
  by (simp_all add: scan_ports_with_def scan_ports_def execute_tasks_with_def execute_tasks_def
      Let_def assms submit_loop_map run_jobs_returning [OF assms] optimal_thread_count_def)

lemma gethost_example: "gethostbyname example_net ''scanme.example'' = Inr ''192.0.2.7''"
  by (simp add: example_net_def)

text \<open>
  What holds of the stop request and of the end of a scan: a stop request on a known scan
  sets its status to "stopped" whatever it was, and the last step of the worker sets it
  to "completed" whatever it was.
\<close>

lemma api_stop_scan_known:
  assumes "active_scans reg scan_id = Some st"
  shows "map_option status (active_scans (fst (api_stop_scan reg scan_id now)) scan_id) =
     Some ''stopped'' \<and>
   snd (api_stop_scan reg scan_id now) = Stopped"
proof -
  have "api_stop_scan reg scan_id now = (complete_scan reg scan_id ''stopped'' now, Stopped)"
    using assms by (simp add: api_stop_scan_def)
  then show ?thesis using complete_scan_status [OF assms, of "''stopped''" now] by simp
qed

lemma finish_scan_known:
  assumes "active_scans reg scan_id = Some st"
  shows "\<exists>reg'. finish_scan reg scan_id found now = Inr reg' \<and>
          map_option status (active_scans reg' scan_id) = Some ''completed''"
proof -
  let ?reg1 = "reg\<lparr>active_scans := (active_scans reg)(scan_id \<mapsto> st\<lparr>results := found\<rparr>)\<rparr>"
  let ?reg2 = "if found \<noteq> []
               then add_log ?reg1 scan_id
                      (''Scan completed. Found '' @ str_nat (length found) @ '' open ports.'')
                      ''info''
               else add_log ?reg1 scan_id ''Scan completed. No open ports found.'' ''warning''"
  have f: "finish_scan reg scan_id found now = Inr (complete_scan ?reg2 scan_id ''completed'' now)"
    using assms by (simp add: finish_scan_def Let_def)
  have "active_scans ?reg1 scan_id = Some (st\<lparr>results := found\<rparr>)" by simp
  then have "\<exists>st2. active_scans ?reg2 scan_id = Some st2"
    using add_log_state [of ?reg1 scan_id "st\<lparr>results := found\<rparr>"] by (cases "found = []") simp_all
  then obtain st2 where "active_scans ?reg2 scan_id = Some st2" by blast
  from complete_scan_status [OF this, of "''completed''" now] f show ?thesis by simp
qed

text \<open>
  The worker when the name is resolved: \<open>reg3\<close> is the registry when the engine's scan
  starts, \<open>reg4\<close> the registry when it has returned or raised.
\<close>

lemma scan_worker_resolved:
  assumes "gethostbyname net target = Inr ip"
    and "reg3 =
           (let reg1 = reg\<lparr>active_scans := (active_scans reg)
                         (scan_id \<mapsto> \<lparr>status = ''running'', progress = 0, start_time = t0,
                                       logs = [], results = [], end_time = None\<rparr>)\<rparr>;
                reg2 = (if ip \<noteq> target
                        then add_log reg1 scan_id (''Resolved '' @ target @ '' to '' @ ip) ''info''
                        else reg1)
            in reg2\<lparr>engine := (engine reg2)\<lparr>timeout := to\<rparr>\<rparr>)"
    and "scan = scan_ports_with lib net m (engine reg3) target ps tc
                  (progress_call net scan_id (length ps) others) ((reg3, 0), 0)"
    and "reg4 = others (snd (state_then scan)) (fst (fst (state_then scan)))"
  shows "registry_at_return (scan_worker lib net m others reg scan_id target ps tc to t0 t1) =
           reg4"
    and "registry_after (scan_worker lib net m others reg scan_id target ps tc to t0 t1) =
           (case and_then (returned_then scan) (\<lambda>found. finish_scan reg4 scan_id found t1) of
              Inl e \<Rightarrow> fail_scan reg4 scan_id e t1
            | Inr reg5 \<Rightarrow> reg5)"
    and "scan_trace (scan_worker lib net m others reg scan_id target ps tc to t0 t1) =
           trace_then scan"
    and "ports_left (scan_worker lib net m others reg scan_id target ps tc to t0 t1) =
           ports_then scan"
  using assms(1) unfolding assms(2-4)
  by (simp_all add: scan_worker_def Let_def cong: sum.case_cong)

lemma scan_worker_after:
  assumes res: "gethostbyname net target = Inr ip"
    and ret: "\<And>e (cb :: ((registry \<times> nat) \<times> nat) callback) s.
                \<exists>found. returned_then (scan_ports_with lib net m e target ps tc cb s) = Inr found"
    and st: "active_scans (registry_at_return
               (scan_worker lib net m others reg scan_id target ps tc to t0 t1)) scan_id = Some st"
  shows "map_option status (active_scans (registry_after
           (scan_worker lib net m others reg scan_id target ps tc to t0 t1)) scan_id) =
         Some ''completed''"
proof -
  let ?reg3 = "(let reg1 = reg\<lparr>active_scans := (active_scans reg)
                         (scan_id \<mapsto> \<lparr>status = ''running'', progress = 0, start_time = t0,
                                       logs = [], results = [], end_time = None\<rparr>)\<rparr>;
                    reg2 = (if ip \<noteq> target
                        then add_log reg1 scan_id (''Resolved '' @ target @ '' to '' @ ip) ''info''
                        else reg1)
                in reg2\<lparr>engine := (engine reg2)\<lparr>timeout := to\<rparr>\<rparr>)"
  let ?scan = "scan_ports_with lib net m (engine ?reg3) target ps tc
                  (progress_call net scan_id (length ps) others) ((?reg3, 0), 0)"
  let ?reg4 = "others (snd (state_then ?scan)) (fst (fst (state_then ?scan)))"
  note r = scan_worker_resolved [OF res refl refl refl]
  have a: "registry_at_return (scan_worker lib net m others reg scan_id target ps tc to t0 t1) =
             ?reg4"
    by (rule r(1))
  have b: "registry_after (scan_worker lib net m others reg scan_id target ps tc to t0 t1) =
           (case and_then (returned_then ?scan) (\<lambda>found. finish_scan ?reg4 scan_id found t1) of
              Inl e \<Rightarrow> fail_scan ?reg4 scan_id e t1
            | Inr reg5 \<Rightarrow> reg5)"
    by (rule r(2))
  obtain found where f: "returned_then ?scan = Inr found" using ret by blast
  from st a have "active_scans ?reg4 scan_id = Some st" by simp
  from finish_scan_known [OF this, of found t1] obtain reg' where
    "finish_scan ?reg4 scan_id found t1 = Inr reg'"
    "map_option status (active_scans reg' scan_id) = Some ''completed''" by blast
  then show ?thesis unfolding b f by (simp add: and_then_def)
qed

lemmas state_eval = example_scan_with Let_def progress_call_def update_progress_def
  complete_scan_def add_log_def api_stop_scan_def initial_registry_def
  fetch_service_info_def SERVICE_MAP_def no_others_def stop_after_first_def str_nat.simps
  str_int_def digit_def

lemma example_scan_returns:
  "\<exists>found. returned_then (scan_ports_with example_lib example_net example_machine self
      ''scanme.example'' [22, 80] 2 cb s) = Inr found"
  by (simp add: example_scan_with Let_def)

text \<open>
  C1. The claim fails on the code. A stop request that arrives while the example scan
  runs (after its first progress call) sets the status to "stopped", and so it stands
  when the engine's scan returns; but the worker is not told to stop: it has probed all
  its ports and now marks the scan "completed". And a stop request on a scan that has
  completed changes its status to "stopped".
\<close>

theorem stopped_scan_does_not_stay_stopped:
  "map_option status (active_scans (registry_at_return
      (scan_worker example_lib example_net example_machine stop_after_first initial_registry
         ''1700000000_scanme.example'' ''scanme.example'' [22, 80] 2 1 0 9))
      ''1700000000_scanme.example'') = Some ''stopped'' \<and>
   map_option status (active_scans (registry_after
      (scan_worker example_lib example_net example_machine stop_after_first initial_registry
         ''1700000000_scanme.example'' ''scanme.example'' [22, 80] 2 1 0 9))
      ''1700000000_scanme.example'') = Some ''completed'' \<and>
   map_option status (active_scans (registry_after
      (scan_worker example_lib example_net example_machine no_others initial_registry
         ''1700000000_scanme.example'' ''scanme.example'' [22, 80] 2 1 0 9))
      ''1700000000_scanme.example'') = Some ''completed'' \<and>
   map_option status (active_scans (fst (api_stop_scan (registry_after
      (scan_worker example_lib example_net example_machine no_others initial_registry
         ''1700000000_scanme.example'' ''scanme.example'' [22, 80] 2 1 0 9))
      ''1700000000_scanme.example'' 12)) ''1700000000_scanme.example'') = Some ''stopped''"
proof -
  let ?id = "''1700000000_scanme.example''"
  let ?w = "\<lambda>others. scan_worker example_lib example_net example_machine others initial_registry
              ?id ''scanme.example'' [22, 80] 2 1 0 9"
  have stop: "\<exists>st. active_scans (registry_at_return (?w stop_after_first)) ?id = Some st \<and>
                status st = ''stopped''"
    unfolding scan_worker_resolved(1) [OF gethost_example refl refl refl]
    by (simp add: state_eval)
  have calm: "\<exists>st. active_scans (registry_at_return (?w no_others)) ?id = Some st \<and>
                status st = ''running''"
    unfolding scan_worker_resolved(1) [OF gethost_example refl refl refl]
    by (simp add: state_eval)
  from stop obtain st1 where st1: "active_scans (registry_at_return (?w stop_after_first)) ?id = Some st1"
    "status st1 = ''stopped''" by blast
  from calm obtain st2 where st2: "active_scans (registry_at_return (?w no_others)) ?id = Some st2"
    by blast
  have after1: "map_option status (active_scans (registry_after (?w stop_after_first)) ?id) =
                  Some ''completed''"
    by (rule scan_worker_after [OF gethost_example example_scan_returns st1(1)])
  have after2: "map_option status (active_scans (registry_after (?w no_others)) ?id) =
                  Some ''completed''"
    by (rule scan_worker_after [OF gethost_example example_scan_returns st2])
  then obtain st3 where "active_scans (registry_after (?w no_others)) ?id = Some st3"
    by (cases "active_scans (registry_after (?w no_others)) ?id") auto
  from api_stop_scan_known [OF this, of 12] have
    "map_option status (active_scans (fst (api_stop_scan (registry_after (?w no_others)) ?id 12))
       ?id) = Some ''stopped''" by simp
  with st1 after1 after2 show ?thesis by simp
qed

end
